theory Spec2Isabelle
  imports Complex_Main "HOL-Library.Word" "HOL-Library.Multiset"
begin

unbundle bit_operations_syntax

section \<open>Result codes and C scalar values\<close>

text \<open>
  The result enumeration is declared in the public header, which is not part of
  \<^verbatim>\<open>src/\<close>. Modelled from the spec: section 6 lists the result codes
  Success, InvalidArguments, NoSuchDevice, MemoryCopyError, MemoryAllocationError and
  RuntimeError; the constructors carry the names of \<^verbatim>\<open>kmcuda.cc\<close> where it
  names them. Throughout, what the program prints through \<^verbatim>\<open>INFO\<close>, \<^verbatim>\<open>DEBUG\<close>
  and \<^verbatim>\<open>printf\<close> is left out unless a definition says otherwise.
\<close>

datatype KMCUDAResult =
    kmcudaSuccess
  | kmcudaInvalidArguments
  | kmcudaNoSuchDevice
  | kmcudaMemoryAllocationFailure
  | kmcudaRuntimeError
  | kmcudaMemoryCopyError

text \<open>
  A C \<^verbatim>\<open>float\<close> or \<^verbatim>\<open>double\<close>: a finite value, an infinity or a NaN.
  Finite values are read as the reals they denote; the comparisons are the IEEE ones,
  false as soon as an operand is a NaN. The sums and the scaling used by the centroid
  initialisation are exact; the product that gives the number of groups, whose integer
  part depends on the rounding, is rounded to \<^verbatim>\<open>float\<close> (\<open>flt_mul\<close> below).
\<close>

datatype cfloat = Fin real | PInf | NInf | NaN

fun flt_lt :: "cfloat \<Rightarrow> cfloat \<Rightarrow> bool" where
  "flt_lt NaN _ = False"
| "flt_lt _ NaN = False"
| "flt_lt (Fin a) (Fin b) = (a < b)"
| "flt_lt (Fin _) PInf = True"
| "flt_lt (Fin _) NInf = False"
| "flt_lt PInf _ = False"
| "flt_lt NInf NInf = False"
| "flt_lt NInf _ = True"

fun flt_le :: "cfloat \<Rightarrow> cfloat \<Rightarrow> bool" where
  "flt_le NaN _ = False"
| "flt_le _ NaN = False"
| "flt_le (Fin a) (Fin b) = (a \<le> b)"
| "flt_le (Fin _) PInf = True"
| "flt_le (Fin _) NInf = False"
| "flt_le PInf PInf = True"
| "flt_le PInf _ = False"
| "flt_le NInf _ = True"

fun flt_add :: "cfloat \<Rightarrow> cfloat \<Rightarrow> cfloat" where
  "flt_add NaN _ = NaN"
| "flt_add _ NaN = NaN"
| "flt_add (Fin a) (Fin b) = Fin (a + b)"
| "flt_add (Fin _) PInf = PInf"
| "flt_add (Fin _) NInf = NInf"
| "flt_add PInf NInf = NaN"
| "flt_add PInf _ = PInf"
| "flt_add NInf PInf = NaN"
| "flt_add NInf _ = NInf"

fun flt_neg :: "cfloat \<Rightarrow> cfloat" where
  "flt_neg NaN = NaN"
| "flt_neg (Fin a) = Fin (- a)"
| "flt_neg PInf = NInf"
| "flt_neg NInf = PInf"

fun flt_scale :: "real \<Rightarrow> cfloat \<Rightarrow> cfloat" where
  "flt_scale c NaN = NaN"
| "flt_scale c (Fin a) = Fin (c * a)"
| "flt_scale c PInf = (if c = 0 then NaN else if 0 < c then PInf else NInf)"
| "flt_scale c NInf = (if c = 0 then NaN else if 0 < c then NInf else PInf)"

text \<open>
  Rounding to IEEE binary32, to nearest with ties to even: the significand has 24 bits,
  so that a value of binary exponent \<open>e\<close> (at least -126, the subnormal range) is
  rounded to a multiple of \<open>2 ^ (e - 23)\<close>; a result of magnitude \<open>2 ^ 128\<close> or more
  is an infinity.
\<close>

definition round_half_even :: "real \<Rightarrow> int" where
  "round_half_even q =
     (let f = \<lfloor>q\<rfloor> in
      if q - of_int f < 1/2 then f
      else if 1/2 < q - of_int f then f + 1
      else if even f then f else f + 1)"

definition f32_round :: "real \<Rightarrow> real" where
  "f32_round x =
     (if x = 0 then 0
      else let e = max \<lfloor>log 2 \<bar>x\<bar>\<rfloor> (- 126);
               ulp = 2 powi (e - 23)
           in sgn x * of_int (round_half_even (\<bar>x\<bar> / ulp)) * ulp)"

definition to_f32 :: "real \<Rightarrow> cfloat" where
  "to_f32 x =
     (let r = f32_round x in
      if 2 ^ 128 \<le> \<bar>r\<bar> then (if 0 < r then PInf else NInf) else Fin r)"

text \<open>The conversion \<^verbatim>\<open>uint32_t\<close> to \<^verbatim>\<open>float\<close> and the \<^verbatim>\<open>float\<close> product.\<close>

definition u32_to_float :: "32 word \<Rightarrow> cfloat" where
  "u32_to_float n = to_f32 (real (unat n))"

fun flt_mul :: "cfloat \<Rightarrow> cfloat \<Rightarrow> cfloat" where
  "flt_mul NaN _ = NaN"
| "flt_mul _ NaN = NaN"
| "flt_mul (Fin a) (Fin b) = to_f32 (a * b)"
| "flt_mul (Fin a) PInf = (if a = 0 then NaN else if 0 < a then PInf else NInf)"
| "flt_mul (Fin a) NInf = (if a = 0 then NaN else if 0 < a then NInf else PInf)"
| "flt_mul PInf (Fin b) = (if b = 0 then NaN else if 0 < b then PInf else NInf)"
| "flt_mul NInf (Fin b) = (if b = 0 then NaN else if 0 < b then NInf else PInf)"
| "flt_mul PInf PInf = PInf"
| "flt_mul PInf NInf = NInf"
| "flt_mul NInf PInf = NInf"
| "flt_mul NInf NInf = PInf"

instantiation cfloat :: "{zero, plus, minus, ord}"
begin

definition zero_cfloat :: cfloat where "zero_cfloat = Fin 0"
definition plus_cfloat :: "cfloat \<Rightarrow> cfloat \<Rightarrow> cfloat" where "plus_cfloat = flt_add"
definition minus_cfloat :: "cfloat \<Rightarrow> cfloat \<Rightarrow> cfloat" where
  "minus_cfloat a b = flt_add a (flt_neg b)"
definition less_cfloat :: "cfloat \<Rightarrow> cfloat \<Rightarrow> bool" where "less_cfloat = flt_lt"
definition less_eq_cfloat :: "cfloat \<Rightarrow> cfloat \<Rightarrow> bool" where "less_eq_cfloat = flt_le"

instance ..

end

text \<open>Pointers are addresses; \<^verbatim>\<open>nullptr\<close> is address 0.\<close>

type_synonym ptr = nat

definition nullptr :: ptr where
  "nullptr = 0"

text \<open>Memory: the value at each element index of each buffer, a buffer being named by
  its base address.\<close>

type_synonym memory = "ptr \<Rightarrow> nat \<Rightarrow> cfloat"

text \<open>
  \<^verbatim>\<open>1u << k\<close> on a 32-bit unsigned: C++ leaves the shift undefined when the count
  reaches the width of the type, and the model returns \<open>None\<close> there.
\<close>

definition shl1_u32 :: "nat \<Rightarrow> 32 word option" where
  "shl1_u32 k = (if k < 32 then Some (push_bit k 1) else None)"

text \<open>
  What the program's surroundings decide: the number of installed devices
  (\<^verbatim>\<open>cudaGetDeviceCount\<close>), which devices \<^verbatim>\<open>cudaSetDevice\<close> accepts, the
  compile-time \<^verbatim>\<open>CUDA_ARCH\<close> and whether \<^verbatim>\<open>NDEBUG\<close> compiles the assertions out.
\<close>

record platform =
  device_count :: nat
  selectable :: "int \<Rightarrow> bool"
  CUDA_ARCH :: nat
  NDEBUG :: bool

section \<open>Argument validation\<close>

text \<open>
  \<^verbatim>\<open>check_args\<close>, lines 19-56. The checks run in the source's order; the first one
  that fires decides the result. \<^verbatim>\<open>device < 0\<close> is an unsigned comparison. The
  result is \<open>None\<close> when \<^verbatim>\<open>1u << devices\<close> is undefined.
\<close>

definition check_args ::
  "platform \<Rightarrow> cfloat \<Rightarrow> cfloat \<Rightarrow> 32 word \<Rightarrow> 16 word \<Rightarrow> 32 word \<Rightarrow> 32 word \<Rightarrow> bool \<Rightarrow>
   ptr \<Rightarrow> ptr \<Rightarrow> ptr \<Rightarrow> KMCUDAResult option" where
  "check_args pf tolerance yinyang_t samples_size features_size clusters_size device fp16x2
     samples centroids assignments =
    (if clusters_size < 2 \<or> clusters_size = - 1 then Some kmcudaInvalidArguments
     else if features_size = 0 then Some kmcudaInvalidArguments
     else if samples_size < clusters_size then Some kmcudaInvalidArguments
     else if device < 0 then Some kmcudaNoSuchDevice
     else (case shl1_u32 (device_count pf) of
        None \<Rightarrow> None
      | Some limit \<Rightarrow>
          if limit < device then Some kmcudaNoSuchDevice
          else if samples = nullptr \<or> centroids = nullptr \<or> assignments = nullptr
            then Some kmcudaInvalidArguments
          else if flt_lt tolerance (Fin 0) \<or> flt_lt (Fin 1) tolerance
            then Some kmcudaInvalidArguments
          else if flt_lt yinyang_t (Fin 0) \<or> flt_lt (Fin (1/2)) yinyang_t
            then Some kmcudaInvalidArguments
          else if CUDA_ARCH pf < 60 \<and> fp16x2 then Some kmcudaInvalidArguments
          else Some kmcudaSuccess))"

section \<open>Device pool\<close>

text \<open>
  \<^verbatim>\<open>setup_devices\<close>, lines 58-116. The loop of lines 67-76 walks the mask from bit 0
  upwards: a set bit appends the device, and a failed \<^verbatim>\<open>cudaSetDevice\<close> pops it again.
  The loop returns the list and what is left of the mask.
\<close>

function devices_loop :: "(int \<Rightarrow> bool) \<Rightarrow> 32 word \<Rightarrow> int \<Rightarrow> int list \<Rightarrow> int list \<times> 32 word" where
  "devices_loop sel device dev devs =
     (if device \<noteq> 0
      then devices_loop sel (drop_bit 1 device) (dev + 1)
             (if device AND 1 \<noteq> 0
              then (if sel dev then devs @ [dev] else butlast (devs @ [dev]))
              else devs)
      else (devs, device))"
  by pat_completeness auto
termination
proof (relation "measure (\<lambda>(sel, device, dev, devs). unat device)")
  show "wf (measure (\<lambda>(sel, device, dev, devs). unat device))"
    by simp
next
  fix sel :: "int \<Rightarrow> bool" and device :: "32 word" and dev :: int and devs :: "int list"
  assume "device \<noteq> 0"
  then have "unat device \<noteq> 0"
    by (simp add: unat_eq_0)
  then have "unat device div 2 < unat device"
    by simp
  then show "((sel, drop_bit 1 device, dev + 1,
               if device AND 1 \<noteq> 0
               then if sel dev then devs @ [dev] else butlast (devs @ [dev]) else devs),
              sel, device, dev, devs) \<in> measure (\<lambda>(sel, device, dev, devs). unat device)"
    by (simp add: drop_bit_eq_div unat_div)
qed

text \<open>
  The peer-access phase of lines 82-110 only talks to the runtime and logs; what the
  model keeps of it is the list of ordered pairs \<open>(dev, odev)\<close> for which
  \<^verbatim>\<open>cudaDeviceEnablePeerAccess\<close> is called.
\<close>

definition peer_pairs :: "int list \<Rightarrow> (int \<times> int) list" where
  "peer_pairs ds =
     (if 1 < length ds then concat (map (\<lambda>dev. map (Pair dev) (filter (\<lambda>odev. dev \<noteq> odev) ds)) ds)
      else [])"

record setup_out =
  out_devs :: "int list"
  out_peer_calls :: "(int \<times> int) list"

text \<open>
  Lines 67-115, from the mask the loop starts with. Line 77 tests the bit of the
  designated device in what the loop left of the mask; the word shift used for
  \<^verbatim>\<open>1 << device_ptrs\<close> yields 0 for counts of 32 and more, where C++ leaves the
  shift undefined.
\<close>

definition pool_from_mask :: "platform \<Rightarrow> 32 word \<Rightarrow> int \<Rightarrow> setup_out" where
  "pool_from_mask pf device device_ptrs =
     (case devices_loop (selectable pf) device 0 [] of
        (ds, device') \<Rightarrow>
          let p2p_dp = (0 \<le> device_ptrs \<and> device' AND push_bit (nat device_ptrs) 1 = 0);
              ds1 = (if p2p_dp then ds @ [device_ptrs] else ds);
              calls = peer_pairs ds1;
              ds2 = (if p2p_dp then butlast ds1 else ds1)
          in \<lparr>out_devs = ds2, out_peer_calls = calls\<rparr>)"

text \<open>
  \<^verbatim>\<open>setup_devices\<close>. With mask 0, \<^verbatim>\<open>cudaGetDeviceCount\<close> overwrites the mask with
  the device count \<open>n\<close>, an empty list is returned for \<open>n = 0\<close>, and the mask becomes
  \<^verbatim>\<open>(1u << n) - 1\<close> otherwise (undefined, hence \<open>None\<close>, for \<open>n \<ge> 32\<close>).
\<close>

definition setup_devices :: "platform \<Rightarrow> 32 word \<Rightarrow> int \<Rightarrow> setup_out option" where
  "setup_devices pf device device_ptrs =
     (if device = 0
      then
        (if device_count pf = 0 then Some \<lparr>out_devs = [], out_peer_calls = []\<rparr>
         else (case shl1_u32 (device_count pf) of
                 None \<Rightarrow> None
               | Some w \<Rightarrow> Some (pool_from_mask pf (w - 1) device_ptrs)))
      else Some (pool_from_mask pf device device_ptrs))"

text \<open>
  The mask the loop works on, as a notion of its own: the mask given, or the first
  \<open>n\<close> bits when the mask given is 0.
\<close>

definition expanded_mask :: "platform \<Rightarrow> 32 word \<Rightarrow> 32 word option" where
  "expanded_mask pf device =
     (if device = 0 then map_option (\<lambda>w. w - 1) (shl1_u32 (device_count pf)) else Some device)"

text \<open>The devices a mask names that can be selected, in ascending order.\<close>

definition selected_devices :: "platform \<Rightarrow> 32 word \<Rightarrow> int list" where
  "selected_devices pf m =
     map int (filter (\<lambda>k. bit m k \<and> selectable pf (int k)) [0..<32])"

section \<open>The clustering entry point\<close>

datatype KMCUDAInitMethod = kmcudaInitMethodRandom | kmcudaInitMethodPlusPlus | kmcudaInitMethodImport

record kmeans_args =
  arg_init :: KMCUDAInitMethod
  arg_tolerance :: cfloat
  arg_yinyang_t :: cfloat
  arg_samples_size :: "32 word"
  arg_features_size :: "16 word"
  arg_clusters_size :: "32 word"
  arg_seed :: "32 word"
  arg_device :: "32 word"
  arg_device_ptrs :: int
  arg_fp16x2 :: bool
  arg_verbosity :: int
  arg_samples :: ptr
  arg_centroids :: ptr
  arg_assignments :: ptr

text \<open>
  The per-device buffer vectors of \<^verbatim>\<open>kmeans_cuda\<close> and the runtime calls it issues.
  A vector entry is addressed by its position \<open>devi\<close> in the vector; a device by its id.
  Element counts are written as the numbers the size expressions evaluate to.
\<close>

datatype buffer =
    Samples | Centroids | Assignments | AssignmentsPrev | CCounts
  | AssignmentsYY | BoundsYY | DriftsYY | PassedYY | CentroidsYY

datatype kernel = KernelSetup | InitCentroids | KernelYY

datatype action =
    Borrow buffer nat
  | Malloc buffer int nat
  | Alias buffer buffer nat
  | MemcpyH2DAsync buffer nat nat
  | MemcpyPeerAsync buffer nat int int nat
  | MemGetInfo int
  | Call kernel
  | MemcpyD2H buffer nat nat
  | MemcpyPeer buffer int nat int nat
  | DeviceSynchronize int

text \<open>
  What the surroundings decide during a run: whether a runtime call succeeds, what the
  kernel entry points return, and \<^verbatim>\<open>max_distribute_length\<close>, a helper declared in the
  private header.
\<close>

record runtime =
  cuda_ok :: "action \<Rightarrow> bool"
  kernel_result :: "kernel \<Rightarrow> KMCUDAResult"
  max_distribute_length :: "32 word \<Rightarrow> nat \<Rightarrow> int list \<Rightarrow> 32 word"

text \<open>
  A step of the straight-line part of \<^verbatim>\<open>kmeans_cuda\<close>: a runtime call under
  \<^verbatim>\<open>CUCH\<close> with the code returned when it fails, a call under \<^verbatim>\<open>RETERR\<close>, an
  action that cannot fail, or an access outside a vector, which C++ leaves undefined.
  Modelled from the spec: the macros \<^verbatim>\<open>CUCH\<close>, \<^verbatim>\<open>RETERR\<close>, \<^verbatim>\<open>CUMALLOC\<close>,
  \<^verbatim>\<open>CUMALLOC_ONE\<close>, \<^verbatim>\<open>CUMEMCPY_H2D_ASYNC\<close>, \<^verbatim>\<open>FOR_EACH_DEV\<close>,
  \<^verbatim>\<open>FOR_EACH_DEVI\<close> and \<^verbatim>\<open>SYNC_ALL_DEVS\<close> are defined in the private header, not
  under \<^verbatim>\<open>src/\<close>; by sections 4.3 and 7 of the spec they iterate over the selected
  devices in order, allocate or copy once per device, and turn the first failure into an
  immediate return of MemoryAllocationError, MemoryCopyError or RuntimeError.
\<close>

datatype step = Cuda action KMCUDAResult | Reterr kernel | Quiet action | OutOfRange

fun exec :: "runtime \<Rightarrow> step list \<Rightarrow> action list \<Rightarrow> (KMCUDAResult \<times> action list) option" where
  "exec rt [] tr = Some (kmcudaSuccess, tr)"
| "exec rt (Cuda a e # ss) tr =
     (if cuda_ok rt a then exec rt ss (tr @ [a]) else Some (e, tr @ [a]))"
| "exec rt (Reterr k # ss) tr =
     (if kernel_result rt k = kmcudaSuccess then exec rt ss (tr @ [Call k])
      else Some (kernel_result rt k, tr @ [Call k]))"
| "exec rt (Quiet a # ss) tr = exec rt ss (tr @ [a])"
| "exec rt (OutOfRange # ss) tr = None"

text \<open>Conversion of a floating-point value to \<^verbatim>\<open>uint32_t\<close>: truncation; undefined
  when the truncated value is not representable.\<close>

fun float_to_u32 :: "cfloat \<Rightarrow> 32 word option" where
  "float_to_u32 (Fin r) =
     (if - 1 < r \<and> r < 2 ^ 32 then Some (word_of_nat (nat \<lfloor>r\<rfloor>)) else None)"
| "float_to_u32 _ = None"

text \<open>\<^verbatim>\<open>CUMALLOC\<close>: one allocation of the same size on every selected device.\<close>

definition CUMALLOC :: "buffer \<Rightarrow> nat \<Rightarrow> int list \<Rightarrow> step list" where
  "CUMALLOC b n ds = map (\<lambda>dev. Cuda (Malloc b dev n) kmcudaMemoryAllocationFailure) ds"

text \<open>Lines 304-318: the caller's pointer is borrowed on the designated device, every
  other device gets an allocation.\<close>

definition borrow_or_malloc :: "buffer \<Rightarrow> nat \<Rightarrow> int \<Rightarrow> int list \<Rightarrow> step list" where
  "borrow_or_malloc b n device_ptrs ds =
     map (\<lambda>devi. if ds ! devi = device_ptrs then Quiet (Borrow b devi)
                 else Cuda (Malloc b (ds ! devi) n) kmcudaMemoryAllocationFailure)
         [0..<length ds]"

text \<open>Lines 281-289: \<^verbatim>\<open>origin_devi\<close> is the position of the designated device in the
  list, or -1.\<close>

definition origin_devi :: "int list \<Rightarrow> int \<Rightarrow> int" where
  "origin_devi ds device_ptrs =
     fold (\<lambda>devi o_devi. if ds ! devi = device_ptrs then int devi else o_devi)
       [0..<length ds] (- 1)"

text \<open>Lines 290-301: the samples reach every device from the host, or from the
  designated device by peer copies that skip the designated device itself.\<close>

definition distribute_samples :: "nat \<Rightarrow> int \<Rightarrow> int list \<Rightarrow> step list" where
  "distribute_samples n device_ptrs ds =
     (if device_ptrs < 0
      then map (\<lambda>devi. Cuda (MemcpyH2DAsync Samples devi n) kmcudaMemoryCopyError)
             [0..<length ds]
      else map (\<lambda>devi. Cuda (MemcpyPeerAsync Samples devi (ds ! devi) device_ptrs n)
                          kmcudaMemoryCopyError)
             (filter (\<lambda>devi. int devi \<noteq> origin_devi ds device_ptrs) [0..<length ds]))"

text \<open>
  Lines 324-345. \<^verbatim>\<open>max_length\<close>, \<^verbatim>\<open>yy_groups_size + 1\<close>,
  \<^verbatim>\<open>clusters_size + yy_groups_size\<close> and \<^verbatim>\<open>yy_groups_size * features_size\<close> are
  32-bit unsigned expressions; \<^verbatim>\<open>yyb_size\<close>, \<^verbatim>\<open>centroids_size\<close> and \<^verbatim>\<open>yyc_size\<close>
  are \<^verbatim>\<open>size_t\<close>, 64 bits wide. The record holds what the block computes.
\<close>

record yy_sizes =
  yyb_size :: "64 word"
  drifts_size :: "64 word"
  passed_size :: "32 word"
  yyc_size :: "64 word"
  reuse_passed :: bool

definition yinyang_sizes :: "32 word \<Rightarrow> 32 word \<Rightarrow> 16 word \<Rightarrow> 32 word \<Rightarrow> yy_sizes" where
  "yinyang_sizes max_length0 clusters_size features_size yy_groups_size =
     (let centroids_size = (ucast clusters_size :: 64 word) * ucast features_size;
          yyb = (ucast max_length0 :: 64 word) * ucast (yy_groups_size + 1);
          max_length = max max_length0 (clusters_size + yy_groups_size);
          yyc = (ucast (yy_groups_size * ucast features_size :: 32 word) :: 64 word)
      in \<lparr>yyb_size = yyb,
          drifts_size = centroids_size + ucast clusters_size,
          passed_size = max_length,
          yyc_size = yyc,
          reuse_passed = (yyc \<le> ucast max_length)\<rparr>)"

definition yinyang_buffers :: "runtime \<Rightarrow> kmeans_args \<Rightarrow> 32 word \<Rightarrow> int list \<Rightarrow> step list" where
  "yinyang_buffers rt a yy_groups_size ds =
     (if 1 \<le> yy_groups_size
      then
        (let max_length0 = max_distribute_length rt (arg_samples_size a)
                             (unat (arg_features_size a) * 4) ds;
             z = yinyang_sizes max_length0 (arg_clusters_size a) (arg_features_size a)
                   yy_groups_size
         in CUMALLOC AssignmentsYY (unat (arg_clusters_size a)) ds
            @ CUMALLOC BoundsYY (unat (yyb_size z)) ds
            @ CUMALLOC DriftsYY (unat (drifts_size z)) ds
            @ CUMALLOC PassedYY (unat (passed_size z)) ds
            @ (if reuse_passed z
               then map (\<lambda>devi. Quiet (Alias CentroidsYY PassedYY devi)) [0..<length ds]
               else CUMALLOC CentroidsYY (unat (yyc_size z)) ds))
      else [])"

text \<open>
  Lines 372-391. Without a designated device the source vectors are indexed by
  \<^verbatim>\<open>devs.back()\<close>, a device id; with a designated device outside the list they are
  indexed by \<^verbatim>\<open>devs.size() - 1\<close>. An index past the end of the vector is undefined.
\<close>

definition vec_at :: "nat \<Rightarrow> int \<Rightarrow> (nat \<Rightarrow> step) \<Rightarrow> step" where
  "vec_at len i f = (if 0 \<le> i \<and> nat i < len then f (nat i) else OutOfRange)"

definition collect_results :: "kmeans_args \<Rightarrow> int list \<Rightarrow> step list" where
  "collect_results a ds =
     (let centroids_size = unat ((ucast (arg_clusters_size a) :: 64 word)
                                  * ucast (arg_features_size a))
      in if origin_devi ds (arg_device_ptrs a) < 0
         then
           if arg_device_ptrs a < 0
           then [vec_at (length ds) (last ds)
                   (\<lambda>i. Cuda (MemcpyD2H Centroids i centroids_size) kmcudaMemoryCopyError),
                 vec_at (length ds) (last ds)
                   (\<lambda>i. Cuda (MemcpyD2H Assignments i (unat (arg_samples_size a)))
                           kmcudaMemoryCopyError)]
           else [vec_at (length ds) (int (length ds) - 1)
                   (\<lambda>i. Cuda (MemcpyPeer Centroids (arg_device_ptrs a) i (last ds) centroids_size)
                           kmcudaMemoryCopyError),
                 vec_at (length ds) (int (length ds) - 1)
                   (\<lambda>i. Cuda (MemcpyPeer Assignments (arg_device_ptrs a) i (last ds)
                                 (unat (arg_samples_size a)))
                           kmcudaMemoryCopyError)]
                @ map (\<lambda>dev. Cuda (DeviceSynchronize dev) kmcudaRuntimeError) ds
         else [])"

text \<open>\<^verbatim>\<open>print_memory_stats\<close>, lines 118-131: one \<^verbatim>\<open>cudaMemGetInfo\<close> per device, whose
  failure returns \<^verbatim>\<open>kmcudaRuntimeError\<close>.\<close>

definition print_memory_stats :: "int list \<Rightarrow> step list" where
  "print_memory_stats ds = map (\<lambda>dev. Cuda (MemGetInfo dev) kmcudaRuntimeError) ds"

text \<open>
  Lines 279-391, the part of \<^verbatim>\<open>kmeans_cuda\<close> that runs on a non-empty device list.
  \<^verbatim>\<open>kmeans_cuda_setup\<close> and \<^verbatim>\<open>kmeans_cuda_yy\<close> are external kernels;
  \<^verbatim>\<open>kmeans_init_centroids\<close> is modelled on an explicit store in the next section, and
  here the run continues on the result code it returns.
\<close>

definition kmeans_cuda_steps :: "runtime \<Rightarrow> kmeans_args \<Rightarrow> 32 word \<Rightarrow> int list \<Rightarrow> step list" where
  "kmeans_cuda_steps rt a yy_groups_size ds =
     (let device_samples_size = unat ((ucast (arg_samples_size a) :: 64 word)
                                       * ucast (arg_features_size a));
          centroids_size = unat ((ucast (arg_clusters_size a) :: 64 word)
                                  * ucast (arg_features_size a))
      in borrow_or_malloc Samples device_samples_size (arg_device_ptrs a) ds
         @ distribute_samples device_samples_size (arg_device_ptrs a) ds
         @ borrow_or_malloc Centroids centroids_size (arg_device_ptrs a) ds
         @ borrow_or_malloc Assignments (unat (arg_samples_size a)) (arg_device_ptrs a) ds
         @ CUMALLOC AssignmentsPrev (unat (arg_samples_size a)) ds
         @ CUMALLOC CCounts (unat (arg_clusters_size a)) ds
         @ yinyang_buffers rt a yy_groups_size ds
         @ (if 1 < arg_verbosity a then print_memory_stats ds else [])
         @ [Reterr KernelSetup, Reterr InitCentroids, Reterr KernelYY]
         @ collect_results a ds)"

text \<open>
  \<^verbatim>\<open>kmeans_cuda\<close>, lines 259-394: validation, the group count
  \<^verbatim>\<open>yinyang_t * clusters_size\<close> converted to 32 bits, the device pool, and the steps
  above. \<open>None\<close> stands for undefined behaviour. On line 273 \<^verbatim>\<open>clusters_size\<close> is
  converted to \<^verbatim>\<open>float\<close>, the product is rounded to \<^verbatim>\<open>float\<close>, and the result is
  truncated to 32 bits.
\<close>

definition kmeans_cuda :: "platform \<Rightarrow> runtime \<Rightarrow> kmeans_args \<Rightarrow> (KMCUDAResult \<times> action list) option" where
  "kmeans_cuda pf rt a =
     (case check_args pf (arg_tolerance a) (arg_yinyang_t a) (arg_samples_size a)
             (arg_features_size a) (arg_clusters_size a) (arg_device a) (arg_fp16x2 a)
             (arg_samples a) (arg_centroids a) (arg_assignments a) of
        None \<Rightarrow> None
      | Some r \<Rightarrow>
          if r \<noteq> kmcudaSuccess then Some (r, [])
          else
            (case float_to_u32 (flt_mul (arg_yinyang_t a) (u32_to_float (arg_clusters_size a))) of
               None \<Rightarrow> None
             | Some yy_groups_size \<Rightarrow>
                 (case setup_devices pf (arg_device a) (arg_device_ptrs a) of
                    None \<Rightarrow> None
                  | Some out \<Rightarrow>
                      if out_devs out = [] then Some (kmcudaNoSuchDevice, [])
                      else exec rt (kmeans_cuda_steps rt a yy_groups_size (out_devs out)) [])))"

section \<open>Centroid initialisation\<close>

subsection \<open>The cumulative-weight search\<close>

text \<open>
  Lines 223-245. \<^verbatim>\<open>host_dists\<close> is read as a function from the index to the value;
  an index of \<^verbatim>\<open>samples_size\<close> or more reads whatever lies behind the array. The
  counters are natural numbers: they never exceed \<^verbatim>\<open>samples_size + 1\<close>, and
  \<^verbatim>\<open>samples_size\<close> itself unless the draw is exactly 1, so that the 32-bit \<^verbatim>\<open>j\<close> of
  the source does not wrap. The definitions are written once for
  every number type with \<open>0\<close>, \<open>+\<close>, \<open>-\<close> and an order, and are used with the reals
  (exact arithmetic) and with \<^typ>\<open>cfloat\<close>.

  Lines 226-228 and 236-238: the forward scan from \<open>j\<close> with the running sum
  \<^verbatim>\<open>dist_sum2\<close>.
\<close>

function scan_forward :: "(nat \<Rightarrow> 'a::{plus,ord}) \<Rightarrow> nat \<Rightarrow> 'a \<Rightarrow> nat \<Rightarrow> 'a \<Rightarrow> nat" where
  "scan_forward host_dists samples_size choice_sum j dist_sum2 =
     (if j < samples_size \<and> dist_sum2 < choice_sum
      then scan_forward host_dists samples_size choice_sum (j + 1) (dist_sum2 + host_dists j)
      else j)"
  by pat_completeness auto
termination
  by (relation "measure (\<lambda>(host_dists, samples_size, choice_sum, j, dist_sum2). samples_size - j)")
    auto

text \<open>Lines 240-242: the backward walk, which subtracts \<^verbatim>\<open>host_dists[j]\<close> and stops at
  \<open>j = 1\<close>.\<close>

function walk_backward :: "(nat \<Rightarrow> 'a::{minus,ord}) \<Rightarrow> 'a \<Rightarrow> nat \<Rightarrow> 'a \<Rightarrow> nat" where
  "walk_backward host_dists choice_sum j dist_sum2 =
     (if 1 < j \<and> choice_sum \<le> dist_sum2
      then walk_backward host_dists choice_sum (j - 1) (dist_sum2 - host_dists j)
      else j)"
  by pat_completeness auto
termination
  by (relation "measure (\<lambda>(host_dists, choice_sum, j, dist_sum2). j)") auto

text \<open>Lines 230-234: the sum of the first \<^verbatim>\<open>choice_approx\<close> entries.\<close>

definition partial_sum :: "(nat \<Rightarrow> 'a::{zero,plus}) \<Rightarrow> nat \<Rightarrow> 'a" where
  "partial_sum host_dists choice_approx =
     fold (\<lambda>t dist_sum2. dist_sum2 + host_dists t) [0..<choice_approx] 0"

definition kmpp_search :: "(nat \<Rightarrow> 'a::{zero,plus,minus,ord}) \<Rightarrow> nat \<Rightarrow> nat \<Rightarrow> 'a \<Rightarrow> nat" where
  "kmpp_search host_dists samples_size choice_approx choice_sum =
     (if choice_approx < 100
      then scan_forward host_dists samples_size choice_sum 0 0
      else
        (let dist_sum2 = partial_sum host_dists choice_approx
         in if dist_sum2 < choice_sum
            then scan_forward host_dists samples_size choice_sum choice_approx dist_sum2
            else walk_backward host_dists choice_sum choice_approx dist_sum2 + 1))"

text \<open>
  The search the spec compares with (section 4.4, step 2c, and section 8): a scan of all
  prefix sums from the start that returns the smallest \<open>j\<close> whose prefix sum, the sum
  of the first \<open>j\<close> distances, reaches the target, and \<^verbatim>\<open>samples_size\<close> when none
  does. As in the code, \<open>j\<close> counts the entries summed, and the sample copied is
  \<open>j - 1\<close>.
\<close>

definition prefix_sum :: "(nat \<Rightarrow> real) \<Rightarrow> nat \<Rightarrow> real" where
  "prefix_sum host_dists j = sum_list (map host_dists [0..<j])"

definition naive_scan :: "(nat \<Rightarrow> real) \<Rightarrow> nat \<Rightarrow> real \<Rightarrow> nat" where
  "naive_scan host_dists samples_size target =
     (case find (\<lambda>j. target \<le> prefix_sum host_dists j) [0..<samples_size] of
        Some j \<Rightarrow> j
      | None \<Rightarrow> samples_size)"

subsection \<open>Memory, the random generator and the copies\<close>

text \<open>
  A copy of \<open>n\<close> elements from offset \<open>soff\<close> of buffer \<open>src\<close> to offset \<open>doff\<close> of
  buffer \<open>dst\<close>. The asynchronous copies are modelled by their effect once the
  device's stream has executed them.
\<close>

datatype copy = Copy ptr nat ptr nat nat

fun apply_copy :: "copy \<Rightarrow> memory \<Rightarrow> memory" where
  "apply_copy (Copy dst doff src soff n) m =
     m(dst := (\<lambda>i. if doff \<le> i \<and> i < doff + n then m src (soff + (i - doff)) else m dst i))"





text \<open>
  What the surroundings decide during initialisation: the C library's generator
  (\<^verbatim>\<open>srand\<close>, \<^verbatim>\<open>rand\<close>, \<^verbatim>\<open>RAND_MAX\<close>), whether a copy succeeds, and the distance
  kernel \<^verbatim>\<open>kmeans_cuda_plus_plus\<close>, which for step \<open>i\<close> returns its result code, the
  memory it leaves, the host distance vector and the distance sum.
\<close>

record 'g init_env =
  ie_srand :: "32 word \<Rightarrow> 'g"
  ie_rand :: "'g \<Rightarrow> nat \<times> 'g"
  ie_RAND_MAX :: nat
  ie_copy_ok :: "copy \<Rightarrow> bool"
  ie_plus_plus :: "nat \<Rightarrow> memory \<Rightarrow> KMCUDAResult \<times> memory \<times> (nat \<Rightarrow> cfloat) \<times> cfloat"

text \<open>The state the initialisation works on: memory, the process-wide generator state
  and the internal-bug messages passed to \<^verbatim>\<open>INFO\<close> (the other messages are not
  recorded).\<close>

datatype violation = DistSumIsNaN | BadIndex nat

record 'g world =
  mem :: memory
  rng :: 'g
  violations :: "violation list"

text \<open>How a call ends: it returns a result code, an \<^verbatim>\<open>assert\<close> aborts the process, it
  runs into undefined behaviour, or it does not return within the given number of
  probe rounds.\<close>

datatype outcome = Returns KMCUDAResult | AssertionFailed | Undefined | NoReturn

text \<open>Copies under \<^verbatim>\<open>CUCH\<close>, in order; the first failure ends the call with
  \<^verbatim>\<open>kmcudaMemoryCopyError\<close>.\<close>

fun run_copies :: "(copy \<Rightarrow> bool) \<Rightarrow> copy list \<Rightarrow> memory \<Rightarrow> bool \<times> memory" where
  "run_copies ok [] m = (True, m)"
| "run_copies ok (c # cs) m = (if ok c then run_copies ok cs (apply_copy c m) else (False, m))"

text \<open>
  Modelled from the spec: \<^verbatim>\<open>std::random_shuffle\<close> is C++ library code; section 4.4
  describes it as a Fisher-Yates shuffle over the full index range that draws from the
  process-wide seeded generator. Position \<open>i\<close> is swapped with position
  \<^verbatim>\<open>rand() % (i + 1)\<close>, for \<open>i\<close> from 1 upwards.
\<close>

definition random_shuffle :: "('g \<Rightarrow> nat \<times> 'g) \<Rightarrow> 'a list \<Rightarrow> 'g \<Rightarrow> 'a list \<times> 'g" where
  "random_shuffle rnd xs g =
     fold (\<lambda>i (ys, g). case rnd g of (r, g') \<Rightarrow>
             (let j = r mod (i + 1) in (ys[i := ys ! j, j := ys ! i], g')))
       [1..<length xs] (xs, g)"

subsection \<open>The three modes\<close>

text \<open>
  Lines 143-163, import. The element count \<^verbatim>\<open>clusters_size * features_size\<close> is a
  32-bit unsigned product in both branches.
\<close>

definition import_copies :: "32 word \<Rightarrow> 16 word \<Rightarrow> int list \<Rightarrow> int \<Rightarrow> ptr \<Rightarrow> ptr list \<Rightarrow> copy list" where
  "import_copies clusters_size features_size ds device_ptrs host_centroids centroids =
     (let n = unat (clusters_size * ucast features_size)
      in if device_ptrs < 0
         then map (\<lambda>devi. Copy (centroids ! devi) 0 host_centroids 0 n) [0..<length ds]
         else map (\<lambda>devi. Copy (centroids ! devi) 0 host_centroids 0 n)
                (filter (\<lambda>devi. int devi \<noteq> origin_devi ds device_ptrs) [0..<length ds]))"

text \<open>
  Lines 164-183, random. \<^verbatim>\<open>chosen\<close> starts as the identity and is shuffled; centroid
  slot \<open>c\<close> of every device receives sample \<^verbatim>\<open>chosen[c]\<close>. The destination offset
  \<^verbatim>\<open>c * features_size\<close> is a 32-bit product, the source offset a 64-bit one.
\<close>

definition random_chosen :: "'g init_env \<Rightarrow> 32 word \<Rightarrow> nat \<Rightarrow> nat list \<times> 'g" where
  "random_chosen env seed samples_size =
     random_shuffle (ie_rand env) [0..<samples_size] (ie_srand env seed)"

definition random_copies ::
  "nat list \<Rightarrow> 32 word \<Rightarrow> 16 word \<Rightarrow> int list \<Rightarrow> ptr list \<Rightarrow> ptr list \<Rightarrow> copy list" where
  "random_copies chosen clusters_size features_size ds samples centroids =
     concat (map (\<lambda>devi.
        map (\<lambda>c. Copy (centroids ! devi) (unat ((word_of_nat c :: 32 word) * ucast features_size))
                   (samples ! devi) (chosen ! c * unat features_size) (unat features_size))
          [0..<unat clusters_size])
       [0..<length ds])"

text \<open>
  Lines 186-193, the NaN probe of k-means++: draw a sample until the first value of the
  drawn sample is not a NaN. The loop need not end, so the model counts rounds and
  gives up with \<open>None\<close> after \<open>fuel\<close> of them; the result is the offset, the generator
  state and whether the last read succeeded. The read is a one-element copy into the
  local variable \<^verbatim>\<open>smoke\<close>, for which address 0 stands.
\<close>

fun flt_eq :: "cfloat \<Rightarrow> cfloat \<Rightarrow> bool" where
  "flt_eq NaN _ = False"
| "flt_eq _ NaN = False"
| "flt_eq a b = (a = b)"

fun probe :: "'g init_env \<Rightarrow> nat \<Rightarrow> 32 word \<Rightarrow> 16 word \<Rightarrow> ptr \<Rightarrow> memory \<Rightarrow> 'g \<Rightarrow> (bool \<times> 32 word \<times> 'g) option" where
  "probe env 0 samples_size features_size samples0 m g = None"
| "probe env (Suc fuel) samples_size features_size samples0 m g =
     (case ie_rand env g of (r, g') \<Rightarrow>
        (let first_offset = (word_of_nat r mod samples_size) * ucast features_size
         in if \<not> ie_copy_ok env (Copy 0 0 samples0 (unat first_offset) 1) then Some (False, first_offset, g')
            else if flt_eq (m samples0 (unat first_offset)) (m samples0 (unat first_offset))
              then Some (True, first_offset, g')
            else probe env fuel samples_size features_size samples0 m g'))"

text \<open>
  Lines 205-252, one round of k-means++ for centroid \<open>i\<close>. The result is \<open>None\<close> when
  the round falls through to the next one.
\<close>

definition pp_round ::
  "platform \<Rightarrow> 'g init_env \<Rightarrow> 32 word \<Rightarrow> 16 word \<Rightarrow> int list \<Rightarrow> ptr list \<Rightarrow> ptr list \<Rightarrow> nat \<Rightarrow>
   'g world \<Rightarrow> outcome option \<times> 'g world" where
  "pp_round pf env samples_size features_size ds samples centroids i w =
     (case ie_plus_plus env i (mem w) of (res, m1, host_dists, dist_sum) \<Rightarrow>
        if res \<noteq> kmcudaSuccess then (Some (Returns res), w\<lparr>mem := m1\<rparr>)
        else if \<not> flt_eq dist_sum dist_sum \<and> \<not> NDEBUG pf
          then (Some AssertionFailed, w\<lparr>mem := m1\<rparr>)
        else
          (case ie_rand env (rng w) of (r, g') \<Rightarrow>
             (let v1 = (if \<not> flt_eq dist_sum dist_sum then violations w @ [DistSumIsNaN]
                        else violations w);
                  choice = real r / real (ie_RAND_MAX env);
                  choice_approx = nat \<lfloor>choice * real (unat samples_size)\<rfloor>;
                  choice_sum = flt_scale choice dist_sum;
                  j = kmpp_search host_dists (unat samples_size) choice_approx choice_sum;
                  bad = (j = 0 \<or> unat samples_size < j)
              in if bad \<and> \<not> NDEBUG pf
                 then (Some AssertionFailed, \<lparr>mem = m1, rng = g', violations = v1\<rparr>)
                 else
                   (let v2 = (if bad then v1 @ [BadIndex j] else v1);
                        cps = map (\<lambda>devi. Copy (centroids ! devi)
                                     (unat ((word_of_nat i :: 32 word) * ucast features_size))
                                     (samples ! devi)
                                     (unat ((word_of_nat j - 1 :: 32 word) * ucast features_size))
                                     (unat features_size))
                                [0..<length ds]
                    in (case run_copies (ie_copy_ok env) cps m1 of
                          (ok, m2) \<Rightarrow>
                            (if ok then None else Some (Returns kmcudaMemoryCopyError),
                             \<lparr>mem = m2, rng = g', violations = v2\<rparr>))))))"

fun pp_rounds ::
  "platform \<Rightarrow> 'g init_env \<Rightarrow> 32 word \<Rightarrow> 16 word \<Rightarrow> int list \<Rightarrow> ptr list \<Rightarrow> ptr list \<Rightarrow> nat list \<Rightarrow>
   'g world \<Rightarrow> outcome option \<times> 'g world" where
  "pp_rounds pf env samples_size features_size ds samples centroids [] w = (None, w)"
| "pp_rounds pf env samples_size features_size ds samples centroids (i # is) w =
     (case pp_round pf env samples_size features_size ds samples centroids i w of
        (Some out, w') \<Rightarrow> (Some out, w')
      | (None, w') \<Rightarrow> pp_rounds pf env samples_size features_size ds samples centroids is w')"

text \<open>
  \<^verbatim>\<open>kmeans_init_centroids\<close>, lines 135-257. \<^verbatim>\<open>srand(seed)\<close> replaces the generator
  state first. The vectors \<^verbatim>\<open>samples\<close> and \<^verbatim>\<open>centroids\<close> have one entry per device,
  as \<^verbatim>\<open>kmeans_cuda\<close> builds them. Undefined in C++, and so in the model: in the random
  mode a \<^verbatim>\<open>clusters_size\<close> above \<^verbatim>\<open>samples_size\<close> reads \<^verbatim>\<open>chosen\<close> past its end; in
  k-means++ \<^verbatim>\<open>rand() % samples_size\<close> divides by zero for an empty sample set, and
  \<^verbatim>\<open>devs[0]\<close> does not exist for an empty device list.
\<close>

definition kmeans_init_centroids ::
  "platform \<Rightarrow> 'g init_env \<Rightarrow> nat \<Rightarrow> KMCUDAInitMethod \<Rightarrow> 32 word \<Rightarrow> 16 word \<Rightarrow> 32 word \<Rightarrow> 32 word \<Rightarrow>
   int list \<Rightarrow> int \<Rightarrow> ptr \<Rightarrow> ptr list \<Rightarrow> ptr list \<Rightarrow> 'g world \<Rightarrow> outcome \<times> 'g world" where
  "kmeans_init_centroids pf env fuel method samples_size features_size clusters_size seed ds
     device_ptrs host_centroids samples centroids w0 =
     (let w = w0\<lparr>rng := ie_srand env seed\<rparr>
      in case method of
           kmcudaInitMethodImport \<Rightarrow>
             (case run_copies (ie_copy_ok env)
                     (import_copies clusters_size features_size ds device_ptrs host_centroids
                        centroids) (mem w) of
                (ok, m') \<Rightarrow>
                  (if ok then Returns kmcudaSuccess else Returns kmcudaMemoryCopyError,
                   w\<lparr>mem := m'\<rparr>))
         | kmcudaInitMethodRandom \<Rightarrow>
             (case random_chosen env seed (unat samples_size) of
                (chosen, g') \<Rightarrow>
                  if samples_size < clusters_size \<and> ds \<noteq> [] then (Undefined, w\<lparr>rng := g'\<rparr>)
                  else
                    (case run_copies (ie_copy_ok env)
                            (random_copies chosen clusters_size features_size ds samples centroids)
                            (mem w) of
                       (ok, m') \<Rightarrow>
                         (if ok then Returns kmcudaSuccess else Returns kmcudaMemoryCopyError,
                          \<lparr>mem = m', rng = g', violations = violations w\<rparr>)))
         | kmcudaInitMethodPlusPlus \<Rightarrow>
             if samples_size = 0 \<or> ds = [] then (Undefined, w)
             else
             (case probe env fuel samples_size features_size (samples ! 0) (mem w) (rng w) of
                None \<Rightarrow> (NoReturn, w)
              | Some (ok, first_offset, g') \<Rightarrow>
                  if \<not> ok then (Returns kmcudaMemoryCopyError, w\<lparr>rng := g'\<rparr>)
                  else
                    (case run_copies (ie_copy_ok env)
                            (map (\<lambda>devi. Copy (centroids ! devi) 0 (samples ! devi)
                                           (unat first_offset) (unat features_size))
                               [0..<length ds]) (mem w) of
                       (ok1, m1) \<Rightarrow>
                         if \<not> ok1 then (Returns kmcudaMemoryCopyError, \<lparr>mem = m1, rng = g', violations = violations w\<rparr>)
                         else
                           (case pp_rounds pf env samples_size features_size ds samples centroids
                                   [1..<unat clusters_size]
                                   \<lparr>mem = m1, rng = g', violations = violations w\<rparr> of
                              (Some out, w') \<Rightarrow> (out, w')
                            | (None, w') \<Rightarrow> (Returns kmcudaSuccess, w')))))"

section \<open>Normalisation entry point\<close>

text \<open>
  \<^verbatim>\<open>normalize_cuda\<close>, lines 396-402: its body is one debug message and the return.
  The model threads the memory through the call, so that what the call leaves behind can
  be stated.
\<close>

definition normalize_cuda ::
  "ptr \<Rightarrow> 16 word \<Rightarrow> 32 word \<Rightarrow> 32 word \<Rightarrow> int \<Rightarrow> int \<Rightarrow> ptr \<Rightarrow> memory \<Rightarrow> KMCUDAResult \<times> memory" where
  "normalize_cuda samples features_size samples_size device device_ptrs verbosity output_buf m =
     (kmcudaSuccess, m)"

section \<open>Concrete platforms and runs\<close>

text \<open>Small inputs on which the theorems below are instantiated.\<close>

definition one_gpu :: platform where
  "one_gpu = \<lparr>device_count = 1, selectable = (\<lambda>d. d = 0), CUDA_ARCH = 60, NDEBUG = True\<rparr>"

definition two_gpus :: platform where
  "two_gpus = \<lparr>device_count = 2, selectable = (\<lambda>_. True), CUDA_ARCH = 60, NDEBUG = True\<rparr>"

definition three_gpus :: platform where
  "three_gpus = \<lparr>device_count = 3, selectable = (\<lambda>d. d \<noteq> 1), CUDA_ARCH = 60, NDEBUG = True\<rparr>"

definition many_gpus :: platform where
  "many_gpus = \<lparr>device_count = 33, selectable = (\<lambda>_. True), CUDA_ARCH = 60, NDEBUG = True\<rparr>"

definition all_ok :: runtime where
  "all_ok = \<lparr>cuda_ok = (\<lambda>_. True), kernel_result = (\<lambda>_. kmcudaSuccess),
             max_distribute_length = (\<lambda>n _ _. n)\<rparr>"

definition small_run :: kmeans_args where
  "small_run = \<lparr>arg_init = kmcudaInitMethodRandom, arg_tolerance = Fin 0, arg_yinyang_t = Fin (1/2),
     arg_samples_size = 1000, arg_features_size = 8, arg_clusters_size = 5, arg_seed = 42,
     arg_device = 0, arg_device_ptrs = - 1, arg_fp16x2 = False, arg_verbosity = 0,
     arg_samples = 16, arg_centroids = 32, arg_assignments = 48\<rparr>"

declare devices_loop.simps [simp del] scan_forward.simps [simp del] walk_backward.simps [simp del]

definition head_heavy :: "nat \<Rightarrow> real" where
  "head_heavy t = (if t = 0 then 1 else 0)"

definition two_peaks :: "nat \<Rightarrow> real" where
  "two_peaks t = (if t = 0 \<or> t = 100 then 10 else 0)"

text \<open>A generator that returns its state and counts up, a runtime whose copies all
  succeed, and a distance kernel that reports a NaN sum.\<close>

definition counter_rng :: "nat init_env" where
  "counter_rng = \<lparr>ie_srand = unat,
          ie_rand = (\<lambda>g. (g, Suc g)),
          ie_RAND_MAX = 32767,
          ie_copy_ok = (\<lambda>_. True),
          ie_plus_plus = (\<lambda>i m. (kmcudaSuccess, m, (\<lambda>_. Fin 1), NaN))\<rparr>"

definition blank :: "nat world" where
  "blank = \<lparr>mem = (\<lambda>_ _. Fin 0), rng = 0, violations = []\<rparr>"


definition ones_at_32 :: "nat world" where
  "ones_at_32 = \<lparr>mem = (\<lambda>p _. if p = 32 then Fin 1 else Fin 0), rng = 0, violations = []\<rparr>"

section \<open>Properties\<close>

text \<open>
  C10. For every input, \<^verbatim>\<open>normalize_cuda\<close> returns \<^verbatim>\<open>kmcudaSuccess\<close> and leaves the
  memory as it found it: in particular the output buffer is unchanged, whatever the
  samples hold.
\<close>

theorem normalize_cuda_success_no_effect:
  "fst (normalize_cuda samples features_size samples_size device device_ptrs verbosity output_buf m)
     = kmcudaSuccess
   \<and> snd (normalize_cuda samples features_size samples_size device device_ptrs verbosity output_buf m)
     = m
   \<and> normalize_cuda samples features_size samples_size device device_ptrs verbosity output_buf m
     = normalize_cuda samples' features_size samples_size device device_ptrs verbosity output_buf m"
  by (simp add: normalize_cuda_def)




subsection \<open>The device pool\<close>

lemma bit_filter_step:
  fixes w :: "32 word"
  shows "filter (\<lambda>k. bit w k \<and> P k) [0..<32]
       = (if bit w 0 \<and> P 0 then [0] else [])
         @ map Suc (filter (\<lambda>k. bit (drop_bit 1 w) k \<and> P (Suc k)) [0..<32])"
proof -
  have a: "[0..<32] = 0 # map Suc [0..<31]"
    by (simp add: upt_rec map_Suc_upt)
  have b: "filter (\<lambda>k. bit (drop_bit 1 w) k \<and> P (Suc k)) [0..<32]
         = filter (\<lambda>k. bit (drop_bit 1 w) k \<and> P (Suc k)) [0..<31]"
  proof -
    have "[0..<32] = [0..<31] @ [31::nat]" by (simp add: upt_rec)
    moreover have "\<not> bit (drop_bit 1 w) 31"
      using bit_imp_le_length [of w 32] by (auto simp add: bit_drop_bit_eq)
    ultimately show ?thesis by simp
  qed
  show ?thesis
    unfolding b
    apply (subst a)
    apply (simp add: filter_map comp_def bit_drop_bit_eq)
    done
qed

lemma devices_loop_eq:
  "devices_loop sel w dev acc
     = (acc @ map (\<lambda>k. dev + int k) (filter (\<lambda>k. bit w k \<and> sel (dev + int k)) [0..<32]), 0)"
proof (induction sel w dev acc rule: devices_loop.induct)
  case (1 sel device dev devs)
  show ?case
  proof (cases "device = 0")
    case True
    then show ?thesis by (simp add: devices_loop.simps)
  next
    case False
    have odd: "(device AND 1 \<noteq> 0) = bit device 0"
      by (simp add: and_one_eq bit_0 mod_2_eq_odd)
    let ?devs' = "if device AND 1 \<noteq> 0
              then (if sel dev then devs @ [dev] else butlast (devs @ [dev]))
              else devs"
    let ?rest = "map (\<lambda>k. dev + 1 + int k)
        (filter (\<lambda>k. bit (drop_bit 1 device) k \<and> sel (dev + 1 + int k)) [0..<32])"
    have "devices_loop sel device dev devs
        = devices_loop sel (drop_bit 1 device) (dev + 1) ?devs'"
      using False by (subst devices_loop.simps) simp
    also have "\<dots> = (?devs' @ ?rest, 0)"
      by (rule 1 [OF False])
    also have "?devs' @ ?rest
        = devs @ map (\<lambda>k. dev + int k) (filter (\<lambda>k. bit device k \<and> sel (dev + int k)) [0..<32])"
      by (subst bit_filter_step [of device]) (simp add: odd comp_def add.assoc)
    finally show ?thesis .
  qed
qed

lemma selected_devices_set:
  "set (selected_devices pf m) = {d. 0 \<le> d \<and> bit m (nat d) \<and> selectable pf d}"
proof -
  have "\<And>d. 0 \<le> d \<Longrightarrow> bit m (nat d) \<Longrightarrow> nat d < 32"
    using bit_imp_le_length [of m] by fastforce
  then show ?thesis
    by (auto simp: selected_devices_def image_iff) (metis int_nat_eq)
qed

lemma selected_devices_sorted: "sorted_wrt (<) (selected_devices pf m)"
proof -
  have "sorted_wrt (<) (filter (\<lambda>k. bit m k \<and> selectable pf (int k)) [0..<32])"
    by (rule sorted_wrt_filter) simp
  then show ?thesis
    by (simp add: selected_devices_def sorted_wrt_map)
qed

lemma pool_from_mask_out:
  "out_devs (pool_from_mask pf m device_ptrs) = selected_devices pf m
   \<and> (0 \<le> device_ptrs
        \<longrightarrow> out_peer_calls (pool_from_mask pf m device_ptrs)
              = peer_pairs (selected_devices pf m @ [device_ptrs]))"
proof -
  have "devices_loop (selectable pf) m 0 [] = (selected_devices pf m, 0)"
    by (simp add: devices_loop_eq selected_devices_def comp_def)
  then show ?thesis
    by (simp add: pool_from_mask_def Let_def)
qed

lemma setup_devices_out:
  assumes "expanded_mask pf device = Some m"
  shows "\<exists>out. setup_devices pf device device_ptrs = Some out
           \<and> out_devs out = selected_devices pf m
           \<and> (0 \<le> device_ptrs \<longrightarrow> out_peer_calls out = peer_pairs (out_devs out @ [device_ptrs]))"
proof (cases "device = 0 \<and> device_count pf = 0")
  case True
  with assms have "m = 0"
    by (auto simp: expanded_mask_def shl1_u32_def)
  with True show ?thesis
    by (simp add: setup_devices_def selected_devices_def peer_pairs_def)
next
  case False
  with assms have "setup_devices pf device device_ptrs = Some (pool_from_mask pf m device_ptrs)"
    by (auto simp: setup_devices_def expanded_mask_def split: option.splits)
  with pool_from_mask_out [of pf m device_ptrs] show ?thesis
    by simp
qed

text \<open>
  C4. For every mask and designated device for which the mask the loop works on is
  defined, \<^verbatim>\<open>setup_devices\<close> returns (it has no failure exit) the devices whose bit is
  set in that mask and whose selection succeeded, in ascending order; a device whose
  selection fails is left out. The designated device is in the returned list only when
  its bit is set, although the peer-access phase ran over the list with the designated
  device appended.
\<close>

theorem setup_devices_selected:
  assumes "expanded_mask pf device = Some m"
  shows "\<exists>out. setup_devices pf device device_ptrs = Some out
           \<and> out_devs out = selected_devices pf m
           \<and> sorted_wrt (<) (out_devs out)
           \<and> set (out_devs out) = {d. 0 \<le> d \<and> bit m (nat d) \<and> selectable pf d}
           \<and> (device_ptrs \<in> set (out_devs out) \<longrightarrow> 0 \<le> device_ptrs \<and> bit m (nat device_ptrs))
           \<and> (0 \<le> device_ptrs \<longrightarrow> out_peer_calls out = peer_pairs (out_devs out @ [device_ptrs]))"
  using setup_devices_out [OF assms, of device_ptrs]
  by (auto simp: selected_devices_sorted selected_devices_set)

theorem setup_devices_selected_witness:
  "expanded_mask three_gpus 7 = Some 7
   \<and> setup_devices three_gpus 7 1
       = Some \<lparr>out_devs = [0, 2], out_peer_calls = [(0, 2), (0, 1), (2, 0), (2, 1), (1, 0), (1, 2)]\<rparr>"
proof -
  have e: "expanded_mask three_gpus 7 = Some 7"
    by (simp add: expanded_mask_def)
  have s: "selected_devices three_gpus 7 = [0, 2]"
    by (simp add: selected_devices_def three_gpus_def upt_rec)
  from setup_devices_selected [OF e, of 1] s e show ?thesis
    by (auto simp: peer_pairs_def)
qed

lemma filter_less_upt: "n \<le> b \<Longrightarrow> filter (\<lambda>k. k < n \<and> P k) [0..<b] = filter P [0..<n]"
proof -
  assume "n \<le> b"
  then have "[0..<b] = [0..<n] @ [n..<b]"
    using upt_add_eq_append [of 0 n "b - n"] by simp
  moreover have "filter (\<lambda>k. k < n \<and> P k) [0..<n] = filter P [0..<n]"
    by (rule filter_cong) auto
  ultimately show ?thesis
    by simp
qed

lemma selected_devices_all:
  assumes "n < 32" and "\<forall>k<n. selectable pf (int k)"
  shows "selected_devices pf (mask n) = map int [0..<n]"
proof -
  have "filter (\<lambda>k. bit (mask n :: 32 word) k \<and> selectable pf (int k)) [0..<32]
      = filter (\<lambda>k. k < n \<and> selectable pf (int k)) [0..<32]"
    by (rule filter_cong) (auto simp: bit_mask_iff)
  also have "\<dots> = filter (\<lambda>k. selectable pf (int k)) [0..<n]"
    using assms(1) by (simp add: filter_less_upt)
  also have "\<dots> = [0..<n]"
    using assms(2) by (simp cong: filter_cong)
  finally show ?thesis
    by (simp add: selected_devices_def)
qed

lemma check_args_success_yinyang:
  assumes "check_args pf tolerance yinyang_t samples_size features_size clusters_size device fp16x2
             samples centroids assignments = Some kmcudaSuccess"
    and "yinyang_t \<noteq> NaN"
  shows "\<exists>r. yinyang_t = Fin r \<and> 0 \<le> r \<and> r \<le> 1/2"
proof -
  from assms(1) have "\<not> flt_lt yinyang_t (Fin 0)" and "\<not> flt_lt (Fin (1/2)) yinyang_t"
    by (auto simp: check_args_def split: if_splits option.splits)
  with assms(2) show ?thesis
    by (cases yinyang_t) auto
qed

lemma round_half_even_nonneg: "0 \<le> q \<Longrightarrow> 0 \<le> round_half_even q"
  by (simp add: round_half_even_def Let_def)

lemma round_half_even_le_ceiling: "round_half_even q \<le> \<lceil>q\<rceil>"
proof (cases "q = of_int \<lfloor>q\<rfloor>")
  case True
  then have "round_half_even q = \<lfloor>q\<rfloor>"
    by (simp add: round_half_even_def Let_def)
  then show ?thesis by simp
next
  case False
  then have "\<lceil>q\<rceil> = \<lfloor>q\<rfloor> + 1"
    by (simp add: ceiling_altdef)
  moreover have "round_half_even q \<le> \<lfloor>q\<rfloor> + 1"
    by (simp add: round_half_even_def Let_def)
  ultimately show ?thesis by simp
qed

lemma round_half_even_int: "round_half_even (of_int n) = n"
  by (simp add: round_half_even_def Let_def)

lemma f32_round_nonneg: "0 \<le> x \<Longrightarrow> 0 \<le> f32_round x"
  by (simp add: f32_round_def Let_def round_half_even_nonneg sgn_if)

lemma f32_round_le_pow2:
  assumes "0 \<le> x" and "x \<le> 2 ^ k"
  shows "f32_round x \<le> 2 ^ k"
proof (cases "x = 0")
  case True
  then show ?thesis by (simp add: f32_round_def)
next
  case False
  with assms have pos: "0 < x" by simp
  define e where "e = max \<lfloor>log 2 \<bar>x\<bar>\<rfloor> (- 126)"
  define ulp :: real where "ulp = 2 powi (e - 23)"
  have ulp: "0 < ulp" by (simp add: ulp_def)
  have "0 < (2::real) ^ k"
    by simp
  with pos assms(2) have "log 2 x \<le> log 2 (2 ^ k)"
    by (subst log_le_cancel_iff) simp_all
  also have "log 2 ((2::real) ^ k) = real k"
    by simp
  finally have "log 2 x \<le> real k" .
  then have "\<lfloor>log 2 x\<rfloor> \<le> int k"
    by (simp add: floor_le_iff)
  then have ek: "e \<le> int k"
    using pos by (simp add: e_def)
  have "(2::real) ^ k = 2 powi (int k)" by simp
  also have "\<dots> = 2 powi ((int k - e + 23) + (e - 23))" by simp
  also have "\<dots> = 2 powi (int k - e + 23) * ulp"
    unfolding ulp_def by (rule power_int_add) simp
  also have "2 powi (int k - e + 23) = (2::real) ^ nat (int k - e + 23)"
    using ek by (simp add: power_int_def)
  finally have split: "(2::real) ^ k = 2 ^ nat (int k - e + 23) * ulp" .
  have "x / ulp \<le> 2 ^ k / ulp"
    using assms(2) ulp by (simp add: divide_right_mono)
  also have "\<dots> = of_int (2 ^ nat (int k - e + 23))"
    using ulp by (simp add: split)
  finally have "\<lceil>x / ulp\<rceil> \<le> 2 ^ nat (int k - e + 23)"
    by (simp only: ceiling_le_iff)
  with round_half_even_le_ceiling [of "x / ulp"]
  have "round_half_even (x / ulp) \<le> 2 ^ nat (int k - e + 23)"
    by simp
  then have "real_of_int (round_half_even (x / ulp)) \<le> of_int (2 ^ nat (int k - e + 23))"
    by (simp only: of_int_le_iff)
  then have "real_of_int (round_half_even (x / ulp)) * ulp \<le> 2 ^ nat (int k - e + 23) * ulp"
    using ulp by (simp add: mult_right_mono)
  moreover have "f32_round x = real_of_int (round_half_even (x / ulp)) * ulp"
    using pos by (simp add: f32_round_def Let_def e_def ulp_def)
  ultimately show ?thesis
    by (simp add: split)
qed

lemma f32_round_exact:
  assumes "0 < x" and "2 powi e \<le> x" and "x < 2 powi (e + 1)" and "- 126 \<le> e"
    and "x / 2 powi (e - 23) = of_int n"
  shows "f32_round x = x"
proof -
  have "2 powr real_of_int (e + 1) = (2::real) powi (e + 1)"
    by (rule powr_real_of_int') simp_all
  then have "2 powr (real_of_int e + 1) = (2::real) powi (e + 1)"
    by simp
  moreover have "2 powr real_of_int e = (2::real) powi e"
    by (rule powr_real_of_int') simp_all
  ultimately have "\<lfloor>log 2 x\<rfloor> = e"
    using assms(1,2,3) by (simp add: floor_log_eq_powr_iff)
  then have "max \<lfloor>log 2 \<bar>x\<bar>\<rfloor> (- 126) = e"
    using assms(1,4) by simp
  then have "f32_round x = of_int (round_half_even (x / 2 powi (e - 23))) * 2 powi (e - 23)"
    using assms(1) by (simp add: f32_round_def Let_def)
  also have "\<dots> = x / 2 powi (e - 23) * 2 powi (e - 23)"
    by (simp only: assms(5) round_half_even_int)
  also have "\<dots> = x" by simp
  finally show ?thesis .
qed

lemma f32_5: "f32_round 5 = 5"
  by (rule f32_round_exact [where e = 2 and n = 10485760]) (simp_all add: power_int_minus)

lemma f32_5_2: "f32_round (5/2) = 5/2"
  by (rule f32_round_exact [where e = 1 and n = 10485760]) (simp_all add: power_int_minus)

lemma to_f32_bounded:
  assumes "0 \<le> x" and "x \<le> 2 ^ 32"
  shows "\<exists>r. to_f32 x = Fin r \<and> 0 \<le> r \<and> r \<le> 2 ^ 32"
proof -
  have "0 \<le> f32_round x"
    using assms(1) by (rule f32_round_nonneg)
  moreover have "f32_round x \<le> 2 ^ 32"
    using assms by (rule f32_round_le_pow2)
  ultimately show ?thesis
    by (simp add: to_f32_def Let_def)
qed

lemma yy_groups_defined:
  fixes clusters_size :: "32 word"
  assumes "0 \<le> q" and "q \<le> 1/2"
  shows "\<exists>yy. float_to_u32 (flt_mul (Fin q) (u32_to_float clusters_size)) = Some yy"
proof -
  have "unat clusters_size < 2 ^ LENGTH(32)"
    by (rule unsigned_less)
  then have "real (unat clusters_size) < real (2 ^ LENGTH(32))"
    by (simp only: of_nat_less_iff)
  then have "real (unat clusters_size) \<le> 2 ^ 32"
    by simp
  moreover have "0 \<le> real (unat clusters_size)"
    by (rule of_nat_0_le_iff)
  ultimately obtain c where c: "u32_to_float clusters_size = Fin c" "0 \<le> c" "c \<le> 2 ^ 32"
    unfolding u32_to_float_def using to_f32_bounded by blast
  have p0: "0 \<le> q * c"
    using assms(1) c(2) by simp
  have "q * c \<le> (1/2) * 2 ^ 32"
    using assms c(2,3) by (intro mult_mono) auto
  then have p1: "q * c \<le> 2 ^ 31"
    by simp
  have r0: "0 \<le> f32_round (q * c)"
    using p0 by (rule f32_round_nonneg)
  have r1: "f32_round (q * c) \<le> 2 ^ 31"
    using p0 p1 by (rule f32_round_le_pow2)
  then have "to_f32 (q * c) = Fin (f32_round (q * c))"
    using r0 by (simp add: to_f32_def Let_def)
  then show ?thesis
    using r0 r1 c(1) by simp
qed

lemma yy_groups_small_run: "float_to_u32 (flt_mul (Fin (1/2)) (u32_to_float 5)) = Some 2"
  by (simp add: u32_to_float_def to_f32_def Let_def f32_5 f32_5_2)

lemma check_args_codes:
  "check_args pf tolerance yinyang_t samples_size features_size clusters_size device fp16x2
     samples centroids assignments = Some r
   \<Longrightarrow> r = kmcudaSuccess \<or> r = kmcudaInvalidArguments \<or> r = kmcudaNoSuchDevice"
  by (auto simp: check_args_def split: if_splits option.splits)

text \<open>
  C3 (as amended). With fewer than 32 installed devices, all of them selectable, mask 0
  makes \<^verbatim>\<open>setup_devices\<close> return every installed device, 0 to \<open>n - 1\<close>. When no
  device named by the mask can be selected, \<^verbatim>\<open>kmeans_cuda\<close> returns
  \<^verbatim>\<open>kmcudaNoSuchDevice\<close>, for a call that is valid otherwise: \<^verbatim>\<open>check_args\<close> does not
  answer \<^verbatim>\<open>kmcudaInvalidArguments\<close> (it may itself answer \<^verbatim>\<open>kmcudaNoSuchDevice\<close>, for a
  mask above \<^verbatim>\<open>1u << n\<close>) and \<^verbatim>\<open>yinyang_t\<close> is a number.
\<close>

theorem mask_zero_and_empty_pool:
  "(device_count pf < 32 \<and> (\<forall>k<device_count pf. selectable pf (int k))
      \<longrightarrow> map_option out_devs (setup_devices pf 0 device_ptrs)
            = Some (map int [0..<device_count pf]))
   \<and> (check_args pf (arg_tolerance a) (arg_yinyang_t a) (arg_samples_size a)
         (arg_features_size a) (arg_clusters_size a) (arg_device a) (arg_fp16x2 a)
         (arg_samples a) (arg_centroids a) (arg_assignments a) = Some r
       \<and> r \<noteq> kmcudaInvalidArguments
       \<and> arg_yinyang_t a \<noteq> NaN
       \<and> expanded_mask pf (arg_device a) = Some m
       \<and> selected_devices pf m = []
      \<longrightarrow> map_option fst (kmeans_cuda pf rt a) = Some kmcudaNoSuchDevice)"
proof (intro conjI impI)
  assume a: "device_count pf < 32 \<and> (\<forall>k<device_count pf. selectable pf (int k))"
  then have e: "expanded_mask pf 0 = Some (mask (device_count pf))"
    by (simp add: expanded_mask_def shl1_u32_def mask_eq_exp_minus_1)
  from setup_devices_out [OF e, of device_ptrs] a
  show "map_option out_devs (setup_devices pf 0 device_ptrs) = Some (map int [0..<device_count pf])"
    by (auto simp: selected_devices_all)
next
  assume a: "check_args pf (arg_tolerance a) (arg_yinyang_t a) (arg_samples_size a)
         (arg_features_size a) (arg_clusters_size a) (arg_device a) (arg_fp16x2 a)
         (arg_samples a) (arg_centroids a) (arg_assignments a) = Some r
       \<and> r \<noteq> kmcudaInvalidArguments
       \<and> arg_yinyang_t a \<noteq> NaN
       \<and> expanded_mask pf (arg_device a) = Some m
       \<and> selected_devices pf m = []"
  then have ca: "check_args pf (arg_tolerance a) (arg_yinyang_t a) (arg_samples_size a)
         (arg_features_size a) (arg_clusters_size a) (arg_device a) (arg_fp16x2 a)
         (arg_samples a) (arg_centroids a) (arg_assignments a) = Some r"
    and ni: "r \<noteq> kmcudaInvalidArguments"
    by simp_all
  from check_args_codes [OF ca] ni consider "r = kmcudaNoSuchDevice" | "r = kmcudaSuccess"
    by blast
  then show "map_option fst (kmeans_cuda pf rt a) = Some kmcudaNoSuchDevice"
  proof cases
    case 1
    with ca show ?thesis
      by (simp add: kmeans_cuda_def)
  next
    case 2
    with ca a obtain q where q: "arg_yinyang_t a = Fin q" "0 \<le> q" "q \<le> 1/2"
      using check_args_success_yinyang by blast
    obtain yy where yy: "float_to_u32 (flt_mul (arg_yinyang_t a) (u32_to_float (arg_clusters_size a)))
        = Some yy"
      using yy_groups_defined [OF q(2,3)] q(1) by auto
    from a obtain out where out: "setup_devices pf (arg_device a) (arg_device_ptrs a) = Some out"
        "out_devs out = []"
      using setup_devices_out [of pf "arg_device a" m "arg_device_ptrs a"] by auto
    from 2 ca yy out show ?thesis
      by (simp add: kmeans_cuda_def)
  qed
qed

theorem mask_zero_and_empty_pool_witness:
  "map_option out_devs (setup_devices (three_gpus\<lparr>selectable := (\<lambda>_. True)\<rparr>) 0 (- 1)) = Some [0, 1, 2]
   \<and> selected_devices one_gpu 2 = []
   \<and> map_option fst (kmeans_cuda one_gpu all_ok (small_run\<lparr>arg_device := 2\<rparr>))
       = Some kmcudaNoSuchDevice
   \<and> selected_devices one_gpu 4 = []
   \<and> map_option fst (kmeans_cuda one_gpu all_ok (small_run\<lparr>arg_device := 4\<rparr>))
       = Some kmcudaNoSuchDevice"
proof -
  have c2: "check_args one_gpu (Fin 0) (Fin (1/2)) 1000 8 5 2 False 16 32 48 = Some kmcudaSuccess"
    by (simp add: check_args_def one_gpu_def shl1_u32_def nullptr_def)
  have c4: "check_args one_gpu (Fin 0) (Fin (1/2)) 1000 8 5 4 False 16 32 48 = Some kmcudaNoSuchDevice"
    by (simp add: check_args_def one_gpu_def shl1_u32_def nullptr_def)
  have e: "expanded_mask one_gpu 2 = Some 2" "expanded_mask one_gpu 4 = Some 4"
    by (simp_all add: expanded_mask_def)
  have s: "selected_devices one_gpu 2 = []" "selected_devices one_gpu 4 = []"
    by (simp_all add: selected_devices_def one_gpu_def upt_rec)
  have u: "[0..<3] = [0, 1, 2]"
    by (simp add: upt_rec)
  from mask_zero_and_empty_pool [of "three_gpus\<lparr>selectable := (\<lambda>_. True)\<rparr>" "- 1"
      "small_run\<lparr>arg_device := 2\<rparr>" kmcudaSuccess 2 all_ok]
    mask_zero_and_empty_pool [of one_gpu 0 "small_run\<lparr>arg_device := 2\<rparr>" kmcudaSuccess 2 all_ok]
    mask_zero_and_empty_pool [of one_gpu 0 "small_run\<lparr>arg_device := 4\<rparr>" kmcudaNoSuchDevice 4 all_ok]
    c2 c4 e s u
  show ?thesis
    by (simp add: three_gpus_def small_run_def)
qed

text \<open>
  The claim as first stated fails for 32 and more installed devices: with 33 of them the
  shift \<^verbatim>\<open>1u << 33\<close> is undefined, and a 32-bit mask cannot name device 32, so mask 0
  does not yield the devices 0 to 32.
\<close>

theorem mask_zero_and_empty_pool_counterexample:
  "setup_devices many_gpus 0 (- 1) = None
   \<and> map_option out_devs (setup_devices many_gpus 0 (- 1)) \<noteq> Some (map int [0..<33])"
  by (simp add: setup_devices_def many_gpus_def shl1_u32_def)

subsection \<open>Buffer sizes and the final copy\<close>

lemma origin_devi_fold_absent:
  "\<forall>i\<in>set is. ds ! i \<noteq> dp \<Longrightarrow>
   fold (\<lambda>devi o_devi. if ds ! devi = dp then int devi else o_devi) is acc = acc"
  by (induction "is" arbitrary: acc) auto

lemma origin_devi_absent: "dp \<notin> set ds \<Longrightarrow> origin_devi ds dp = - 1"
  unfolding origin_devi_def
  by (rule origin_devi_fold_absent) (auto simp: set_conv_nth)

lemma collect_results_designated_outside:
  assumes "ds \<noteq> []" and "0 \<le> arg_device_ptrs a" and "arg_device_ptrs a \<notin> set ds"
  shows "collect_results a ds =
     [Cuda (MemcpyPeer Centroids (arg_device_ptrs a) (length ds - 1) (last ds)
              (unat ((ucast (arg_clusters_size a) :: 64 word) * ucast (arg_features_size a))))
           kmcudaMemoryCopyError,
      Cuda (MemcpyPeer Assignments (arg_device_ptrs a) (length ds - 1) (last ds)
              (unat (arg_samples_size a)))
           kmcudaMemoryCopyError]
     @ map (\<lambda>dev. Cuda (DeviceSynchronize dev) kmcudaRuntimeError) ds"
proof -
  from assms(1) have "nat (int (length ds) - 1) = length ds - 1" and "0 < length ds"
    by simp_all
  with assms origin_devi_absent [OF assms(3)] show ?thesis
    by (simp add: collect_results_def vec_at_def Let_def)
qed

lemma unat_ucast_32_64: "unat (ucast (w :: 32 word) :: 64 word) = unat w"
proof -
  have "unat w < 2 ^ LENGTH(32)"
    by (rule unsigned_less)
  then have "unat w < 2 ^ 64"
    by simp
  then show ?thesis
    by (simp add: unsigned_ucast_eq take_bit_nat_eq_self)
qed

lemma unat_ucast_16_64: "unat (ucast (w :: 16 word) :: 64 word) = unat w"
proof -
  have "unat w < 2 ^ LENGTH(16)"
    by (rule unsigned_less)
  then have "unat w < 2 ^ 64"
    by simp
  then show ?thesis
    by (simp add: unsigned_ucast_eq take_bit_nat_eq_self)
qed

lemma unat_ucast_16_32: "unat (ucast (w :: 16 word) :: 32 word) = unat w"
proof -
  have "unat w < 2 ^ LENGTH(16)"
    by (rule unsigned_less)
  then have "unat w < 2 ^ 32"
    by simp
  then show ?thesis
    by (simp add: unsigned_ucast_eq take_bit_nat_eq_self)
qed

lemma unat_max: "unat (max a b) = max (unat a) (unat b)"
  by (simp add: max_def word_le_nat_alt)

lemma mult_lt_2p64:
  fixes a b :: nat
  assumes "a < 2 ^ 32" and "b \<le> 2 ^ 32"
  shows "a * b < 2 ^ 64"
proof -
  have "a * b \<le> (2 ^ 32 - 1) * 2 ^ 32"
    using assms by (intro mult_mono) auto
  also have "\<dots> < (2 ^ 64 :: nat)"
    by simp
  finally show ?thesis .
qed

lemma yinyang_sizes_exact:
  fixes ml cs yy :: "32 word" and fs :: "16 word"
  assumes "unat cs + unat yy < 2 ^ 32" and "unat yy * unat fs < 2 ^ 32" and "unat yy + 1 < 2 ^ 32"
  shows "unat (yyb_size (yinyang_sizes ml cs fs yy)) = unat ml * (unat yy + 1)"
    and "unat (drifts_size (yinyang_sizes ml cs fs yy)) = unat cs * unat fs + unat cs"
    and "unat (passed_size (yinyang_sizes ml cs fs yy)) = max (unat ml) (unat cs + unat yy)"
    and "reuse_passed (yinyang_sizes ml cs fs yy)
           \<longleftrightarrow> unat yy * unat fs \<le> max (unat ml) (unat cs + unat yy)"
proof -
  have ml: "unat ml < 2 ^ 32" and cs: "unat cs < 2 ^ 32"
    using unsigned_less [of ml, where ?'a = nat] unsigned_less [of cs, where ?'a = nat] by simp_all
  have fs: "unat fs < 2 ^ 16"
    using unsigned_less [of fs, where ?'a = nat] by simp
  have y1: "unat (yy + 1) = unat yy + 1"
    using assms(3) by (simp add: unat_word_ariths)
  have s: "unat (cs + yy) = unat cs + unat yy"
    using assms(1) by (simp add: unat_word_ariths)
  have p: "unat (yy * ucast fs) = unat yy * unat fs"
    using assms(2) by (simp add: unat_word_ariths unat_ucast_16_32)
  have b: "unat ml * (unat yy + 1) < 2 ^ 64"
    using ml assms(3) by (intro mult_lt_2p64) auto
  have "unat cs * unat fs \<le> (2 ^ 32 - 1) * 2 ^ 16"
    using cs fs by (intro mult_mono) auto
  with cs have d: "unat cs * unat fs + unat cs < 2 ^ 64" and d': "unat cs * unat fs < 2 ^ 64"
    by simp_all
  have "unat ((ucast ml :: 64 word) * ucast (yy + 1))
      = unat (ucast ml :: 64 word) * unat (ucast (yy + 1) :: 64 word) mod 2 ^ 64"
    by (simp add: unat_word_ariths)
  also have "\<dots> = unat ml * (unat yy + 1) mod 2 ^ 64"
    by (simp only: unat_ucast_32_64 y1)
  also have "\<dots> = unat ml * (unat yy + 1)"
    using b by simp
  finally show "unat (yyb_size (yinyang_sizes ml cs fs yy)) = unat ml * (unat yy + 1)"
    by (simp add: yinyang_sizes_def Let_def)
  show "unat (drifts_size (yinyang_sizes ml cs fs yy)) = unat cs * unat fs + unat cs"
    using d d' by (simp add: yinyang_sizes_def Let_def unat_word_ariths unat_ucast_32_64
        unat_ucast_16_64)
  show "unat (passed_size (yinyang_sizes ml cs fs yy)) = max (unat ml) (unat cs + unat yy)"
    by (simp add: yinyang_sizes_def Let_def unat_max s)
  show "reuse_passed (yinyang_sizes ml cs fs yy)
           \<longleftrightarrow> unat yy * unat fs \<le> max (unat ml) (unat cs + unat yy)"
    by (simp add: yinyang_sizes_def Let_def word_le_nat_alt unat_ucast_32_64 unat_max s p)
qed

text \<open>
  Two evaluations of the group count of line 273. With 131076 clusters and
  \<^verbatim>\<open>yinyang_t\<close> = 0.5 no rounding occurs and the count is 65538, the exact product.
  With 20 clusters and \<^verbatim>\<open>yinyang_t\<close> = 0.35f (the \<^verbatim>\<open>float\<close> 11744051 / 2^25) the
  product rounds up to 7.0f and the count is 7, whereas the exact product truncates to 6.
\<close>

lemma f32_131076: "f32_round 131076 = 131076"
  by (rule f32_round_exact [where e = 17 and n = 8388864]) (simp_all add: power_int_minus)

lemma f32_65538: "f32_round 65538 = 65538"
  by (rule f32_round_exact [where e = 16 and n = 8388864]) (simp_all add: power_int_minus)

lemma group_count_131076:
  "float_to_u32 (flt_mul (Fin (1/2)) (u32_to_float 131076)) = Some 65538"
  by (simp add: u32_to_float_def to_f32_def Let_def f32_131076 f32_65538)

lemma f32_20: "f32_round 20 = 20"
  by (rule f32_round_exact [where e = 4 and n = 10485760]) (simp_all add: power_int_minus)

lemma f32_035: "f32_round (11744051 / 2 ^ 25) = 11744051 / 2 ^ 25"
  by (rule f32_round_exact [where e = "-2" and n = 11744051]) (simp_all add: power_int_minus)

lemma f32_7: "f32_round (58720255 / 8388608) = 7"
proof -
  have fl: "\<lfloor>log 2 (58720255 / 8388608 :: real)\<rfloor> = 2"
    by (simp add: floor_log_eq_powr_iff powr_real_of_int')
  show ?thesis
    by (simp add: f32_round_def Let_def fl power_int_minus round_half_even_def)
qed

lemma group_count_rounds_up:
  "float_to_u32 (flt_mul (Fin (11744051 / 2 ^ 25)) (u32_to_float 20)) = Some 7
   \<and> float_to_u32 (flt_scale (real (unat (20 :: 32 word))) (Fin (11744051 / 2 ^ 25))) = Some 6"
  by (simp add: u32_to_float_def to_f32_def Let_def f32_20 f32_035 f32_7)

text \<open>
  C7. With 131076 clusters, \<^verbatim>\<open>yinyang_t\<close> = 0.5 (65538 groups, the exact product,
  which line 273 computes without rounding) and 65535 features, the
  32-bit product \<^verbatim>\<open>yy_groups_size * features_size\<close> wraps to 65534: whatever
  \<^verbatim>\<open>max_distribute_length\<close> returns, the group-centroid buffer is aliased onto the
  passed buffer, although the 65538 * 65535 elements it needs exceed that buffer's
  capacity.
\<close>

theorem group_centroids_size_wraps:
  "float_to_u32 (flt_scale (real (unat (131076 :: 32 word))) (Fin (1/2))) = Some 65538
   \<and> yyc_size (yinyang_sizes ml 131076 65535 65538) = 65534
   \<and> reuse_passed (yinyang_sizes ml 131076 65535 65538)
   \<and> unat (passed_size (yinyang_sizes ml 131076 65535 65538)) < 65538 * 65535"
proof -
  have a: "float_to_u32 (flt_scale (real (unat (131076 :: 32 word))) (Fin (1/2))) = Some 65538"
    by simp
  have b: "yyc_size (yinyang_sizes ml 131076 65535 65538) = 65534"
    by (simp add: yinyang_sizes_def Let_def)
  have "unat (65534 :: 64 word) \<le> unat (ucast (max ml 196614 :: 32 word) :: 64 word)"
  proof -
    have "unat (196614 :: 32 word) \<le> unat (max ml 196614)"
      by (metis max.cobounded2 word_le_nat_alt)
    then show ?thesis
      by (simp add: unat_ucast_32_64)
  qed
  then have c: "reuse_passed (yinyang_sizes ml 131076 65535 65538)"
    by (simp add: yinyang_sizes_def Let_def word_le_nat_alt)
  have "unat (passed_size (yinyang_sizes ml 131076 65535 65538)) < 2 ^ LENGTH(32)"
    by (rule unsigned_less)
  then have d: "unat (passed_size (yinyang_sizes ml 131076 65535 65538)) < 65538 * 65535"
    by simp
  from a b c d show ?thesis by simp
qed

text \<open>
  C9. With two installed devices, mask 2 (device 1 alone) and no designated device, the
  device list is \<open>[1]\<close> and the final copy reads the centroid and assignment vectors at
  index \<^verbatim>\<open>devs.back()\<close> = 1, past their single entry: the run does not copy the
  buffers of the last selected device, which sit at position 0.
\<close>

theorem result_copy_indexed_by_device_id:
  "map_option out_devs (setup_devices two_gpus 2 (- 1)) = Some [1]
   \<and> collect_results (small_run\<lparr>arg_device := 2\<rparr>) [1] = [OutOfRange, OutOfRange]
   \<and> kmeans_cuda two_gpus all_ok (small_run\<lparr>arg_device := 2\<rparr>) = None"
proof -
  have e: "expanded_mask two_gpus 2 = Some 2"
    by (simp add: expanded_mask_def)
  obtain out where out: "setup_devices two_gpus 2 (- 1) = Some out" "out_devs out = [1]"
    using setup_devices_out [OF e, of "- 1"]
    by (auto simp: selected_devices_def two_gpus_def upt_rec)
  have c: "collect_results (small_run\<lparr>arg_device := 2\<rparr>) [1] = [OutOfRange, OutOfRange]"
    by (simp add: collect_results_def small_run_def origin_devi_def vec_at_def)
  have k: "kmeans_cuda two_gpus all_ok (small_run\<lparr>arg_device := 2\<rparr>) = None"
    using out
    by (simp add: kmeans_cuda_def check_args_def shl1_u32_def small_run_def two_gpus_def
        nullptr_def kmeans_cuda_steps_def borrow_or_malloc_def distribute_samples_def
        CUMALLOC_def yinyang_buffers_def yinyang_sizes_def all_ok_def collect_results_def
        origin_devi_def vec_at_def Let_def yy_groups_small_run)
  from out c k show ?thesis by simp
qed

subsection \<open>The cumulative-weight search\<close>

lemma prefix_sum_Suc: "prefix_sum dists (Suc j) = prefix_sum dists j + dists j"
  by (simp add: prefix_sum_def)

lemma partial_sum_fold:
  "fold (\<lambda>t s. s + dists t) [i..<j] (acc :: real) = acc + sum_list (map dists [i..<j])"
proof (induction j)
  case 0
  then show ?case by simp
next
  case (Suc j)
  then show ?case by (cases "i \<le> j") simp_all
qed

lemma partial_sum_prefix_sum: "partial_sum dists ca = prefix_sum dists ca"
  by (simp add: partial_sum_def prefix_sum_def partial_sum_fold)

lemma scan_forward_find:
  "j \<le> n \<Longrightarrow>
   scan_forward dists n cs j (prefix_sum dists j)
     = (case find (\<lambda>k. cs \<le> prefix_sum dists k) [j..<n] of Some k \<Rightarrow> k | None \<Rightarrow> n)"
proof (induction "n - j" arbitrary: j)
  case 0
  then show ?case by (simp add: scan_forward.simps)
next
  case (Suc d)
  then have lt: "j < n" and d: "d = n - Suc j" and le: "Suc j \<le> n"
    by simp_all
  have u: "[j..<n] = j # [Suc j..<n]"
    using lt by (simp add: upt_conv_Cons)
  show ?case
  proof (cases "prefix_sum dists j < cs")
    case True
    then have "scan_forward dists n cs j (prefix_sum dists j)
        = scan_forward dists n cs (Suc j) (prefix_sum dists (Suc j))"
      using lt by (subst scan_forward.simps) (simp add: prefix_sum_Suc)
    also have "\<dots> = (case find (\<lambda>k. cs \<le> prefix_sum dists k) [Suc j..<n] of Some k \<Rightarrow> k | None \<Rightarrow> n)"
      by (rule Suc.hyps(1) [OF d le])
    finally show ?thesis
      using True by (simp add: u)
  next
    case False
    then show ?thesis
      using lt by (subst scan_forward.simps) (simp add: u)
  qed
qed

lemma linear_scan_is_naive: "scan_forward dists n cs 0 0 = naive_scan dists n cs"
  using scan_forward_find [of 0 n dists cs] by (simp add: naive_scan_def prefix_sum_def)

lemma prefix_sum_mono:
  assumes "\<forall>t. 0 \<le> dists t" and "i \<le> j"
  shows "prefix_sum dists i \<le> prefix_sum dists j"
  using assms(2)
proof (induction j)
  case 0
  then show ?case by simp
next
  case (Suc j)
  then show ?case
    using assms(1) spec [OF assms(1), of j]
    by (cases "i = Suc j") (auto simp: prefix_sum_Suc intro: order_trans)
qed

lemma find_append_None: "find P xs = None \<Longrightarrow> find P (xs @ ys) = find P ys"
  by (induction xs) (auto split: if_splits)

lemma forward_scan_is_naive:
  assumes "\<forall>t. 0 \<le> dists t" and "ca \<le> n" and "prefix_sum dists ca < cs"
  shows "scan_forward dists n cs ca (prefix_sum dists ca) = naive_scan dists n cs"
proof -
  have "\<not> cs \<le> prefix_sum dists k" if "k < ca" for k
  proof -
    have "prefix_sum dists k \<le> prefix_sum dists ca"
      using that by (intro prefix_sum_mono [OF assms(1)]) simp
    with assms(3) show ?thesis
      by simp
  qed
  then have "\<forall>k\<in>set [0..<ca]. \<not> cs \<le> prefix_sum dists k"
    by simp
  then have "find (\<lambda>k. cs \<le> prefix_sum dists k) [0..<ca] = None"
    by (simp add: find_None_iff)
  moreover have "[0..<n] = [0..<ca] @ [ca..<n]"
    using assms(2) upt_add_eq_append [of 0 ca "n - ca"] by simp
  ultimately have "find (\<lambda>k. cs \<le> prefix_sum dists k) [0..<n]
      = find (\<lambda>k. cs \<le> prefix_sum dists k) [ca..<n]"
    by (simp add: find_append_None)
  then show ?thesis
    using scan_forward_find [OF assms(2), of dists cs] by (simp add: naive_scan_def)
qed

lemma kmpp_search_is_naive_unless_backward:
  assumes "\<forall>t. 0 \<le> dists t" and "ca \<le> n" and "ca < 100 \<or> prefix_sum dists ca < cs"
  shows "kmpp_search dists n ca cs = naive_scan dists n cs"
proof (cases "ca < 100")
  case True
  then show ?thesis
    by (simp add: kmpp_search_def linear_scan_is_naive)
next
  case False
  with assms(3) have "prefix_sum dists ca < cs"
    by simp
  with False forward_scan_is_naive [OF assms(1,2) this] show ?thesis
    by (simp add: kmpp_search_def partial_sum_prefix_sum Let_def)
qed

text \<open>
  C1. The hybrid search and the naive scan differ on two inputs with 200 samples and the
  draw 1/2, so that \<^verbatim>\<open>choice_approx\<close> is 100 and the prefix sum up to it has reached the
  target. With all the weight on sample 0 the naive scan returns 1 and the backward walk,
  which stops at \<open>j = 1\<close> and adds one, returns 2. With weight 10 on samples 0 and 100
  the naive scan returns 1 and the backward walk, which subtracts \<^verbatim>\<open>host_dists[100]\<close>, an
  entry the prefix sum does not contain, returns 100.
\<close>

theorem backward_walk_misses_naive_index:
  "kmpp_search head_heavy 200 (nat \<lfloor>(1/2 :: real) * 200\<rfloor>) ((1/2) * prefix_sum head_heavy 200) = 2
   \<and> naive_scan head_heavy 200 ((1/2) * prefix_sum head_heavy 200) = 1
   \<and> kmpp_search two_peaks 200 (nat \<lfloor>(1/2 :: real) * 200\<rfloor>) ((1/2) * prefix_sum two_peaks 200) = 100
   \<and> naive_scan two_peaks 200 ((1/2) * prefix_sum two_peaks 200) = 1"
  by code_simp

subsection \<open>Random initialisation\<close>





lemma run_copies_all_ok: "\<forall>c. ok c \<Longrightarrow> fst (run_copies ok cs m) = True"
  by (induction cs arbitrary: m) simp_all















subsection \<open>Internal-consistency violations in k-means++\<close>

lemma pp_round_ndebug:
  assumes "NDEBUG pf" and "\<forall>c. ie_copy_ok env c"
    and "ie_plus_plus env i (mem w) = (kmcudaSuccess, m1, host_dists, dist_sum)"
  shows "fst (pp_round pf env samples_size features_size ds samples centroids i w) = None"
    and "\<not> flt_eq dist_sum dist_sum \<Longrightarrow>
         DistSumIsNaN \<in> set (violations (snd (pp_round pf env samples_size features_size ds
                                               samples centroids i w)))"
    and "j = kmpp_search host_dists (unat samples_size)
               (nat \<lfloor>real (fst (ie_rand env (rng w))) / real (ie_RAND_MAX env)
                      * real (unat samples_size)\<rfloor>)
               (flt_scale (real (fst (ie_rand env (rng w))) / real (ie_RAND_MAX env)) dist_sum)
         \<Longrightarrow> j = 0 \<or> unat samples_size < j \<Longrightarrow>
         BadIndex j \<in> set (violations (snd (pp_round pf env samples_size features_size ds
                                             samples centroids i w)))"
proof -
  obtain r g' where r: "ie_rand env (rng w) = (r, g')"
    by (cases "ie_rand env (rng w)")
  define j0 where "j0 = kmpp_search host_dists (unat samples_size)
               (nat \<lfloor>real r / real (ie_RAND_MAX env) * real (unat samples_size)\<rfloor>)
               (flt_scale (real r / real (ie_RAND_MAX env)) dist_sum)"
  define cps where "cps = map (\<lambda>devi. Copy (centroids ! devi)
                                     (unat ((word_of_nat i :: 32 word) * ucast features_size))
                                     (samples ! devi)
                                     (unat ((word_of_nat j0 - 1 :: 32 word) * ucast features_size))
                                     (unat features_size))
                                [0..<length ds]"
  define v1 where "v1 = (if \<not> flt_eq dist_sum dist_sum then violations w @ [DistSumIsNaN]
                        else violations w)"
  define v2 where "v2 = (if j0 = 0 \<or> unat samples_size < j0 then v1 @ [BadIndex j0] else v1)"
  obtain m2 where m2: "run_copies (ie_copy_ok env) cps m1 = (True, m2)"
    using run_copies_all_ok [OF assms(2), of cps m1] by (cases "run_copies (ie_copy_ok env) cps m1") simp
  have eq: "pp_round pf env samples_size features_size ds samples centroids i w
      = (None, \<lparr>mem = m2, rng = g', violations = v2\<rparr>)"
    unfolding pp_round_def
    by (simp only: assms(3) r Let_def prod.case j0_def [symmetric] cps_def [symmetric]
        v1_def [symmetric] v2_def [symmetric] m2 assms(1) simp_thms if_True if_False refl KMCUDAResult.simps)
  show "fst (pp_round pf env samples_size features_size ds samples centroids i w) = None"
    by (simp add: eq)
  show "DistSumIsNaN \<in> set (violations (snd (pp_round pf env samples_size features_size ds
                                               samples centroids i w)))"
    if "\<not> flt_eq dist_sum dist_sum"
    using that by (simp add: eq v2_def v1_def)
  show "BadIndex j \<in> set (violations (snd (pp_round pf env samples_size features_size ds
                                             samples centroids i w)))"
    if "j = kmpp_search host_dists (unat samples_size)
               (nat \<lfloor>real (fst (ie_rand env (rng w))) / real (ie_RAND_MAX env)
                      * real (unat samples_size)\<rfloor>)
               (flt_scale (real (fst (ie_rand env (rng w))) / real (ie_RAND_MAX env)) dist_sum)"
      and "j = 0 \<or> unat samples_size < j"
  proof -
    from that(1) have "j = j0"
      by (simp add: j0_def r)
    with that(2) show ?thesis
      by (simp add: eq v2_def)
  qed
qed

lemma pp_rounds_ndebug:
  assumes "NDEBUG pf" and "\<forall>c. ie_copy_ok env c"
    and "\<forall>i m. fst (ie_plus_plus env i m) = kmcudaSuccess"
  shows "fst (pp_rounds pf env samples_size features_size ds samples centroids is w) = None"
proof (induction "is" arbitrary: w)
  case Nil
  then show ?case by simp
next
  case (Cons i "is")
  obtain res m1 host_dists dist_sum
    where k: "ie_plus_plus env i (mem w) = (res, m1, host_dists, dist_sum)"
    by (cases "ie_plus_plus env i (mem w)") auto
  with assms(3) have "res = kmcudaSuccess"
    by (metis fst_conv)
  with k have "fst (pp_round pf env samples_size features_size ds samples centroids i w) = None"
    by (intro pp_round_ndebug(1) [OF assms(1,2)]) simp
  then obtain w' where "pp_round pf env samples_size features_size ds samples centroids i w
      = (None, w')"
    by (cases "pp_round pf env samples_size features_size ds samples centroids i w") simp
  with Cons.IH [of w'] show ?case
    by simp
qed

lemma probe_Some_copy_ok:
  "\<forall>c. ie_copy_ok env c \<Longrightarrow> probe env fuel samples_size features_size s0 m g = Some (ok, off, g')
     \<Longrightarrow> ok"
  by (induction fuel arbitrary: g) (auto simp: Let_def split: prod.splits if_splits)

text \<open>
  C6 (as amended). With the assertions compiled out (\<^verbatim>\<open>NDEBUG\<close>), a round of k-means++
  whose kernel call and copies succeed falls through to the next round whatever the
  distance sum and the index found: a NaN sum and an index that is 0 or above
  \<^verbatim>\<open>samples_size\<close> are only recorded as messages. If moreover there is a sample and a
  device, the NaN probe ends and every kernel call and copy succeeds,
  \<^verbatim>\<open>kmeans_init_centroids\<close> returns \<^verbatim>\<open>kmcudaSuccess\<close>.
\<close>

theorem kmpp_violations_not_returned:
  "(NDEBUG pf \<and> (\<forall>c. ie_copy_ok env c)
      \<and> ie_plus_plus env i (mem w) = (kmcudaSuccess, m1, host_dists, dist_sum)
     \<longrightarrow> fst (pp_round pf env samples_size features_size ds samples centroids i w) = None
         \<and> (\<not> flt_eq dist_sum dist_sum
              \<longrightarrow> DistSumIsNaN \<in> set (violations (snd (pp_round pf env samples_size features_size
                                                          ds samples centroids i w))))
         \<and> (j = kmpp_search host_dists (unat samples_size)
                   (nat \<lfloor>real (fst (ie_rand env (rng w))) / real (ie_RAND_MAX env)
                          * real (unat samples_size)\<rfloor>)
                   (flt_scale (real (fst (ie_rand env (rng w))) / real (ie_RAND_MAX env)) dist_sum)
              \<and> (j = 0 \<or> unat samples_size < j)
              \<longrightarrow> BadIndex j \<in> set (violations (snd (pp_round pf env samples_size features_size
                                                        ds samples centroids i w)))))
   \<and> (NDEBUG pf \<and> (\<forall>c. ie_copy_ok env c)
        \<and> (\<forall>i m. fst (ie_plus_plus env i m) = kmcudaSuccess)
        \<and> samples_size \<noteq> 0 \<and> ds \<noteq> []
        \<and> probe env fuel samples_size features_size (samples ! 0) (mem w0) (ie_srand env seed) \<noteq> None
       \<longrightarrow> fst (kmeans_init_centroids pf env fuel kmcudaInitMethodPlusPlus samples_size
                  features_size clusters_size seed ds device_ptrs host_centroids samples
                  centroids w0) = Returns kmcudaSuccess)"
proof (intro conjI impI)
  assume a: "NDEBUG pf \<and> (\<forall>c. ie_copy_ok env c)
      \<and> ie_plus_plus env i (mem w) = (kmcudaSuccess, m1, host_dists, dist_sum)"
  then have n: "NDEBUG pf" and c: "\<forall>c. ie_copy_ok env c"
    and k: "ie_plus_plus env i (mem w) = (kmcudaSuccess, m1, host_dists, dist_sum)"
    by simp_all
  show "fst (pp_round pf env samples_size features_size ds samples centroids i w) = None"
    by (rule pp_round_ndebug(1) [OF n c k])
  show "DistSumIsNaN \<in> set (violations (snd (pp_round pf env samples_size features_size
                                                          ds samples centroids i w)))"
    if "\<not> flt_eq dist_sum dist_sum"
    using that by (rule pp_round_ndebug(2) [OF n c k])
  show "BadIndex j \<in> set (violations (snd (pp_round pf env samples_size features_size
                                                        ds samples centroids i w)))"
    if "j = kmpp_search host_dists (unat samples_size)
                   (nat \<lfloor>real (fst (ie_rand env (rng w))) / real (ie_RAND_MAX env)
                          * real (unat samples_size)\<rfloor>)
                   (flt_scale (real (fst (ie_rand env (rng w))) / real (ie_RAND_MAX env)) dist_sum)
              \<and> (j = 0 \<or> unat samples_size < j)"
    using that pp_round_ndebug(3) [OF n c k, of j samples_size features_size ds samples centroids]
    by blast
next
  assume a: "NDEBUG pf \<and> (\<forall>c. ie_copy_ok env c)
        \<and> (\<forall>i m. fst (ie_plus_plus env i m) = kmcudaSuccess)
        \<and> samples_size \<noteq> 0 \<and> ds \<noteq> []
        \<and> probe env fuel samples_size features_size (samples ! 0) (mem w0) (ie_srand env seed) \<noteq> None"
  then have n: "NDEBUG pf" and c: "\<forall>c. ie_copy_ok env c"
    and k: "\<forall>i m. fst (ie_plus_plus env i m) = kmcudaSuccess"
    and d: "samples_size \<noteq> 0" "ds \<noteq> []"
    by simp_all
  from a obtain ok off g' where p: "probe env fuel samples_size features_size (samples ! 0) (mem w0)
       (ie_srand env seed) = Some (ok, off, g')"
    by auto
  then have ok: ok
    using probe_Some_copy_ok [OF c] by blast
  define cps where "cps = map (\<lambda>devi. Copy (centroids ! devi) 0 (samples ! devi)
                                           (unat off) (unat features_size)) [0..<length ds]"
  obtain m1 where m1: "run_copies (ie_copy_ok env) cps (mem w0) = (True, m1)"
    using run_copies_all_ok [OF c, of cps "mem w0"]
    by (cases "run_copies (ie_copy_ok env) cps (mem w0)") simp
  obtain w' where r: "pp_rounds pf env samples_size features_size ds samples centroids
      [1..<unat clusters_size] \<lparr>mem = m1, rng = g', violations = violations w0\<rparr> = (None, w')"
    using pp_rounds_ndebug [OF n c k, of samples_size features_size ds samples centroids
        "[1..<unat clusters_size]" "\<lparr>mem = m1, rng = g', violations = violations w0\<rparr>"]
    by (cases "pp_rounds pf env samples_size features_size ds samples centroids
      [1..<unat clusters_size] \<lparr>mem = m1, rng = g', violations = violations w0\<rparr>") simp
  show "fst (kmeans_init_centroids pf env fuel kmcudaInitMethodPlusPlus samples_size
                  features_size clusters_size seed ds device_ptrs host_centroids samples
                  centroids w0) = Returns kmcudaSuccess"
    using r d by (simp add: kmeans_init_centroids_def Let_def p ok cps_def [symmetric] m1)
qed

lemma search0: "kmpp_search (\<lambda>_. Fin 1) (unat (3 :: 32 word))
     (nat \<lfloor>real 8 / real 32767 * real (unat (3 :: 32 word))\<rfloor>) (flt_scale (real 8 / real 32767) NaN) = 0"
  by (simp add: kmpp_search_def scan_forward.simps less_cfloat_def zero_cfloat_def)

theorem kmpp_violations_not_returned_witness:
  "fst (pp_round one_gpu counter_rng 3 1 [0] [16] [32] 1 (blank\<lparr>rng := 8\<rparr>)) = None
   \<and> DistSumIsNaN \<in> set (violations (snd (pp_round one_gpu counter_rng 3 1 [0] [16] [32] 1
                                            (blank\<lparr>rng := 8\<rparr>))))
   \<and> BadIndex 0 \<in> set (violations (snd (pp_round one_gpu counter_rng 3 1 [0] [16] [32] 1
                                          (blank\<lparr>rng := 8\<rparr>))))
   \<and> fst (kmeans_init_centroids one_gpu counter_rng 1 kmcudaInitMethodPlusPlus 3 1 2 7 [0] (- 1) 0
            [16] [32] blank) = Returns kmcudaSuccess"
proof -
  have n: "NDEBUG one_gpu"
    by (simp add: one_gpu_def)
  have c: "\<forall>c. ie_copy_ok counter_rng c"
    by (simp add: counter_rng_def)
  have k: "ie_plus_plus counter_rng 1 (mem (blank\<lparr>rng := 8\<rparr>))
      = (kmcudaSuccess, mem blank, (\<lambda>_. Fin 1), NaN)"
    by (simp add: counter_rng_def)
  have ks: "\<forall>i m. fst (ie_plus_plus counter_rng i m) = kmcudaSuccess"
    by (simp add: counter_rng_def)
  have p: "probe counter_rng 1 3 1 ([16] ! 0) (mem blank) (ie_srand counter_rng 7) \<noteq> None"
    by (simp add: counter_rng_def blank_def)
  have r: "fst (ie_rand counter_rng (rng (blank\<lparr>rng := 8\<rparr>))) = 8"
    and rm: "ie_RAND_MAX counter_rng = 32767"
    by (simp_all add: counter_rng_def)
  have j: "0 = kmpp_search (\<lambda>_. Fin 1) (unat (3 :: 32 word))
               (nat \<lfloor>real (fst (ie_rand counter_rng (rng (blank\<lparr>rng := 8\<rparr>))))
                      / real (ie_RAND_MAX counter_rng) * real (unat (3 :: 32 word))\<rfloor>)
               (flt_scale (real (fst (ie_rand counter_rng (rng (blank\<lparr>rng := 8\<rparr>))))
                      / real (ie_RAND_MAX counter_rng)) NaN)"
    unfolding r rm by (rule search0 [symmetric])
  from kmpp_violations_not_returned [of one_gpu counter_rng 1 "blank\<lparr>rng := 8\<rparr>" "mem blank"
      "\<lambda>_. Fin 1" NaN 3 1 "[0]" "[16]" "[32]" 0 1 blank 7 2 "- 1" 0] n c k ks p j
  show ?thesis
    by simp
qed

text \<open>
  The claim as first stated fails when the assertions are compiled in: the kernel
  succeeds with a NaN sum, and \<^verbatim>\<open>assert(dist_sum == dist_sum)\<close> on line 217 aborts the
  process before anything is logged or returned.
\<close>

theorem kmpp_violations_not_returned_counterexample:
  "fst (ie_plus_plus counter_rng 1 (mem blank)) = kmcudaSuccess
   \<and> snd (snd (snd (ie_plus_plus counter_rng 1 (mem blank)))) = NaN
   \<and> fst (kmeans_init_centroids (one_gpu\<lparr>NDEBUG := False\<rparr>) counter_rng 1 kmcudaInitMethodPlusPlus
            3 1 2 7 [0] (- 1) 0 [16] [32] blank) = AssertionFailed"
  by (simp add: kmeans_init_centroids_def counter_rng_def blank_def one_gpu_def Let_def
      pp_round_def upt_rec)

subsection \<open>Import\<close>

lemma run_copies_from_host:
  assumes "run_copies ok (map (\<lambda>d. Copy d 0 h 0 n) dsts) m = (True, m')"
    and "\<forall>i<n. m h i = v i"
  shows "(\<forall>i<n. m' h i = v i)
       \<and> (\<forall>p. (\<forall>i<n. m p i = v i) \<longrightarrow> (\<forall>i<n. m' p i = v i))
       \<and> (\<forall>d\<in>set dsts. \<forall>i<n. m' d i = v i)"
  using assms
proof (induction dsts arbitrary: m)
  case Nil
  then show ?case by simp
next
  case (Cons d dsts)
  let ?m1 = "apply_copy (Copy d 0 h 0 n) m"
  from Cons.prems(1) have ok: "ok (Copy d 0 h 0 n)"
    and rest: "run_copies ok (map (\<lambda>d. Copy d 0 h 0 n) dsts) ?m1 = (True, m')"
    by (simp_all split: if_splits)
  have h1: "\<forall>i<n. ?m1 h i = v i"
    using Cons.prems(2) by auto
  have d1: "\<forall>i<n. ?m1 d i = v i"
    using Cons.prems(2) by simp
  have p1: "\<forall>p. (\<forall>i<n. m p i = v i) \<longrightarrow> (\<forall>i<n. ?m1 p i = v i)"
    using Cons.prems(2) by auto
  from Cons.IH [OF rest h1] d1 p1 show ?case
    by (metis set_ConsD)
qed

lemma origin_devi_fold_cases:
  "fold (\<lambda>devi o_devi. if ds ! devi = dp then int devi else o_devi) is acc = acc
   \<or> (\<exists>i\<in>set is. ds ! i = dp
        \<and> fold (\<lambda>devi o_devi. if ds ! devi = dp then int devi else o_devi) is acc = int i)"
proof (induction "is" arbitrary: acc)
  case Nil
  then show ?case by simp
next
  case (Cons k "is")
  show ?case
    using Cons.IH [of "if ds ! k = dp then int k else acc"] by auto
qed

lemma origin_devi_hit: "origin_devi ds dp = int k \<Longrightarrow> ds ! k = dp"
  using origin_devi_fold_cases [of ds dp "[0..<length ds]" "- 1"]
  by (auto simp: origin_devi_def)

lemma import_copies_as_map:
  "import_copies clusters_size features_size ds device_ptrs host_centroids centroids
     = map (\<lambda>d. Copy d 0 host_centroids 0 (unat (clusters_size * ucast features_size)))
         (map (\<lambda>devi. centroids ! devi)
            (if device_ptrs < 0 then [0..<length ds]
             else filter (\<lambda>devi. int devi \<noteq> origin_devi ds device_ptrs) [0..<length ds]))"
  by (simp add: import_copies_def Let_def comp_def)

lemma import_copies_reach_every_device:
  assumes "kmeans_init_centroids pf env fuel kmcudaInitMethodImport samples_size features_size
             clusters_size seed ds device_ptrs host_centroids samples centroids w
           = (Returns kmcudaSuccess, w')"
    and "\<forall>devi<length ds. ds ! devi = device_ptrs \<longrightarrow> centroids ! devi = host_centroids"
    and "devi < length ds" and "i < unat (clusters_size * ucast features_size)"
  shows "mem w' (centroids ! devi) i = mem w host_centroids i"
proof -
  let ?n = "unat (clusters_size * ucast features_size)"
  let ?dsts = "map (\<lambda>devi. centroids ! devi)
            (if device_ptrs < 0 then [0..<length ds]
             else filter (\<lambda>devi. int devi \<noteq> origin_devi ds device_ptrs) [0..<length ds])"
  from assms(1) have rc: "run_copies (ie_copy_ok env)
        (map (\<lambda>d. Copy d 0 host_centroids 0 ?n) ?dsts) (mem w) = (True, mem w')"
    unfolding kmeans_init_centroids_def import_copies_as_map
    by (auto simp: Let_def split: prod.splits if_splits)
  have inv: "(\<forall>i<?n. mem w' host_centroids i = mem w host_centroids i)
       \<and> (\<forall>d\<in>set ?dsts. \<forall>i<?n. mem w' d i = mem w host_centroids i)"
    using run_copies_from_host [OF rc, of "mem w host_centroids"] by simp
  show ?thesis
  proof (cases "centroids ! devi \<in> set ?dsts")
    case True
    with inv assms(4) show ?thesis
      by blast
  next
    case False
    with assms(3) have "\<not> device_ptrs < 0" and "int devi = origin_devi ds device_ptrs"
      by (auto split: if_splits)
    then have "ds ! devi = device_ptrs"
      using origin_devi_hit [of ds device_ptrs devi] by simp
    with assms(2,3) have "centroids ! devi = host_centroids"
      by simp
    with inv assms(4) show ?thesis
      by simp
  qed
qed

text \<open>
  C8. With 65538 clusters of 65535 features the centroid array has 65538 * 65535
  elements, and the 32-bit element count of the import copies wraps to 65534. With a host
  array of ones and device buffers of zeros, the call returns \<^verbatim>\<open>kmcudaSuccess\<close> and
  element 65534 of the second device's centroid buffer is still 0, both on the peer-copy
  path (designated device 0, devices 0 and 1) and on the host-to-device path.
\<close>

theorem import_copies_wrapped_count:
  "unat ((65538 :: 32 word) * ucast (65535 :: 16 word)) = 65534
   \<and> fst (kmeans_init_centroids two_gpus counter_rng 0 kmcudaInitMethodImport 65538 65535 65538 7
            [0, 1] 0 32 [16, 48] [32, 64] ones_at_32) = Returns kmcudaSuccess
   \<and> mem (snd (kmeans_init_centroids two_gpus counter_rng 0 kmcudaInitMethodImport 65538 65535 65538 7
            [0, 1] 0 32 [16, 48] [32, 64] ones_at_32)) 32 65534 = Fin 1
   \<and> mem (snd (kmeans_init_centroids two_gpus counter_rng 0 kmcudaInitMethodImport 65538 65535 65538 7
            [0, 1] 0 32 [16, 48] [32, 64] ones_at_32)) 64 65534 = Fin 0
   \<and> mem (snd (kmeans_init_centroids two_gpus counter_rng 0 kmcudaInitMethodImport 65538 65535 65538 7
            [0] (- 1) 32 [16] [64] ones_at_32)) 64 65534 = Fin 0"
  by (simp add: kmeans_init_centroids_def import_copies_def origin_devi_def counter_rng_def
      ones_at_32_def Let_def upt_rec)

end
